theory Spec2Isabelle
  imports Complex_Main
begin

unbundle bit_operations_syntax

section \<open>JavaScript values\<close>

text \<open>
  The workbench is one React component (\<^verbatim>\<open>ImagePreprocessingWorkbench\<close>). Its numbers are
  JavaScript numbers; they are modelled as reals, and \<^verbatim>\<open>NaN\<close> and \<^verbatim>\<open>Infinity\<close> do not
  exist. The rounding of IEEE doubles is idealised away, except in the rectangle of a
  crop, where a product is floored and the rounding decides the pixel: there the division
  and the multiplication round as doubles do (\<open>js_div\<close> and \<open>js_mul\<close> below). A parameter
  object (\<^verbatim>\<open>Partial<TransformParams>\<close>) is a dictionary from key to value; a key that is
  absent reads as \<^verbatim>\<open>undefined\<close>.
\<close>

datatype jsval = Num real | Str string | Pts "real list list"

type_synonym TransformParams = "string \<rightharpoonup> jsval"

text \<open>Reading a numeric key and a string key of a parameter object.\<close>

definition num_param :: "TransformParams \<Rightarrow> string \<Rightarrow> real option" where
  "num_param p k = (case p k of Some (Num v) \<Rightarrow> Some v | _ \<Rightarrow> None)"

definition str_param :: "TransformParams \<Rightarrow> string \<Rightarrow> string option" where
  "str_param p k = (case p k of Some (Str v) \<Rightarrow> Some v | _ \<Rightarrow> None)"

text \<open>\<^verbatim>\<open>a ?? d\<close>: the default replaces only an absent value.\<close>

definition nullish :: "real option \<Rightarrow> real \<Rightarrow> real" where
  "nullish a d = (case a of None \<Rightarrow> d | Some v \<Rightarrow> v)"

text \<open>\<^verbatim>\<open>a || d\<close>: the default replaces every falsy value, the number 0 included.\<close>

definition js_or :: "real option \<Rightarrow> real \<Rightarrow> real" where
  "js_or a d = (case a of None \<Rightarrow> d | Some v \<Rightarrow> if v = 0 then d else v)"

definition js_or_str :: "string option \<Rightarrow> string \<Rightarrow> string" where
  "js_or_str a d = (case a of None \<Rightarrow> d | Some v \<Rightarrow> if v = [] then d else v)"

text \<open>\<^verbatim>\<open>Math.floor\<close>, \<^verbatim>\<open>Math.round\<close> (half up), truncation, \<^verbatim>\<open>ToInt32\<close> as the bitwise
  operators apply it, and the store into a \<^verbatim>\<open>Uint8Array\<close> element.\<close>

definition Math_floor :: "real \<Rightarrow> int" where
  "Math_floor x = \<lfloor>x\<rfloor>"

definition Math_round :: "real \<Rightarrow> int" where
  "Math_round x = \<lfloor>x + 1 / 2\<rfloor>"

definition js_trunc :: "real \<Rightarrow> int" where
  "js_trunc x = (if 0 \<le> x then \<lfloor>x\<rfloor> else \<lceil>x\<rceil>)"

definition ToInt32 :: "real \<Rightarrow> int" where
  "ToInt32 x = (let r = js_trunc x mod 2 ^ 32 in if 2 ^ 31 \<le> r then r - 2 ^ 32 else r)"

definition ToUint8 :: "real \<Rightarrow> int" where
  "ToUint8 x = js_trunc x mod 256"

text \<open>\<^verbatim>\<open>Math.pow\<close> on a base that is not negative. An exponent 0 gives 1 for every base.
  For base 0 and a negative exponent JavaScript gives \<^verbatim>\<open>Infinity\<close>, which a
  \<^verbatim>\<open>Uint8Array\<close> stores as 0; here the power is 0 and is stored as 0 as well.\<close>

definition Math_pow :: "real \<Rightarrow> real \<Rightarrow> real" where
  "Math_pow x y = (if y = 0 then 1 else x powr y)"

subsection \<open>Arithmetic on doubles\<close>

text \<open>
  \<open>binary64 x\<close> is the double nearest to \<open>x\<close>: 53 significant bits, a tie going to the
  even significand; below \<open>pow2 (- 1022)\<close> the spacing stays \<open>pow2 (- 1074)\<close>. The overflow
  to \<^verbatim>\<open>Infinity\<close> (from \<open>pow2 1024\<close> on) is not modelled. A real that is not a double
  stands for the double nearest to it, as a numeric literal does, so \<^verbatim>\<open>a / b\<close> and
  \<^verbatim>\<open>a * b\<close> round their operands first and their exact result then.
\<close>

definition pow2 :: "int \<Rightarrow> real" where
  "pow2 k = (if 0 \<le> k then 2 ^ nat k else 1 / 2 ^ nat (- k))"

definition round_ties_even :: "real \<Rightarrow> int" where
  "round_ties_even x =
     (let f = \<lfloor>x\<rfloor>
      in if x - real_of_int f < 1 / 2 then f
         else if 1 / 2 < x - real_of_int f then f + 1
         else if even f then f else f + 1)"

definition binary64 :: "real \<Rightarrow> real" where
  "binary64 x =
     (if x = 0 then 0
      else (let e = max (- 1022) \<lfloor>log 2 \<bar>x\<bar>\<rfloor>; ulp = pow2 (e - 52)
            in real_of_int (round_ties_even (x / ulp)) * ulp))"

definition js_div :: "real \<Rightarrow> real \<Rightarrow> real" where
  "js_div a b = binary64 (binary64 a / binary64 b)"

definition js_mul :: "real \<Rightarrow> real \<Rightarrow> real" where
  "js_mul a b = binary64 (binary64 a * binary64 b)"

section \<open>Image buffers and the capability provider\<close>

text \<open>
  The content of a \<^verbatim>\<open>cv.Mat\<close>: its size, its depth code (\<^verbatim>\<open>CV_8U\<close> is 0) and one plane
  of \<open>rows \<times> cols\<close> values per channel. The memory layout of OpenCV (interleaved channels)
  is not modelled, only the values.
\<close>

record Mat =
  rows :: nat
  cols :: nat
  depth :: nat
  planes :: "int list list list"

definition empty_Mat :: Mat where
  "empty_Mat = \<lparr>rows = 0, cols = 0, depth = 0, planes = []\<rparr>"

definition CV_8U :: nat where "CV_8U = 0"
definition CV_16S :: nat where "CV_16S = 3"
definition CV_64F :: nat where "CV_64F = 6"

text \<open>\<^verbatim>\<open>mat.type()\<close>: OpenCV packs depth and channel count into one code;
  \<^verbatim>\<open>CV_8UC1\<close> is 0 and \<^verbatim>\<open>CV_8UC4\<close> is 24.\<close>

definition mat_type :: "Mat \<Rightarrow> nat" where
  "mat_type m = depth m + (length (planes m) - 1) * 8"

definition CV_8UC1 :: nat where "CV_8UC1 = 0"
definition CV_8UC4 :: nat where "CV_8UC4 = 24"

datatype color_code =
    COLOR_RGBA2GRAY | COLOR_GRAY2RGBA
  | COLOR_RGBA2HSV | COLOR_HSV2RGBA
  | COLOR_RGBA2Lab | COLOR_Lab2RGBA
  | COLOR_RGBA2YCrCb | COLOR_YCrCb2RGBA
  | COLOR_RGBA2RGB | COLOR_RGB2RGBA
  | COLOR_RGBA2BGRA

datatype rotate_code = ROTATE_90_CLOCKWISE | ROTATE_180 | ROTATE_90_COUNTERCLOCKWISE

datatype thresh_type = THRESH_BINARY | THRESH_BINARY_OTSU

datatype morph_op = MORPH_OPEN | MORPH_CLOSE

text \<open>
  The calls the executor makes into OpenCV.js, with their scalar arguments. The buffers
  a call reads are passed beside it, in the order of the source.
\<close>

datatype prim =
    CvtColor color_code
  | Resize real real
  | Roi int int int int
  | Flip int
  | Rotate rotate_code
  | GetRotationMatrix2D real real real real
  | WarpAffine real real
  | ConvertTo int real real
  | LUT
  | Merge
  | EqualizeHist
  | GaussianBlur int int real
  | MedianBlur int
  | BilateralFilter real real real
  | CopyTo
  | Canny real real
  | Sobel nat real real
  | ConvertScaleAbs
  | Laplacian nat
  | Threshold real real thresh_type
  | AdaptiveThreshold real real real
  | GetStructuringElement real real
  | Erode
  | Dilate
  | MorphologyEx morph_op
  | MatFromArray nat nat nat "real list"
  | PutText string real real real "int list" int

text \<open>
  OpenCV.js itself is outside the repository. The executor is therefore parametrised by
  the provider: \<open>call\<close> runs a primitive on the contents of its input buffers and either
  throws (\<open>Inl\<close>, with the exception's message) or gives the content of its output buffer;
  \<open>split\<close> is \<^verbatim>\<open>cv.split\<close>, which fills a \<^verbatim>\<open>MatVector\<close>.
\<close>

record opencv =
  call :: "prim \<Rightarrow> Mat list \<Rightarrow> string + Mat"
  split :: "Mat \<Rightarrow> string + Mat list"

text \<open>
  The environment of the component: \<^verbatim>\<open>cv\<close> as the hook \<^verbatim>\<open>useOpenCv\<close> returns it
  (\<open>None\<close> until the library is loaded), and the browser, which the two helpers of
  \<^verbatim>\<open>lib/utils\<close> call.
  \<^item> \<open>dataUrlToMat e u\<close> is the content of the buffer that the helper \<^verbatim>\<open>dataUrlToMat\<close>
    fills from the pixels the browser decodes from the data URL \<open>u\<close>; the allocation of
    that buffer is made where the helper is called.
  \<^item> \<open>getContext\<close> tells whether \<^verbatim>\<open>canvas.getContext('2d')\<close> gives a context.
  \<^item> \<open>createImageData e w h\<close> is \<^verbatim>\<open>ctx.createImageData(w, h)\<close>: \<open>Inl\<close> with the message when
    the browser throws.
  \<^item> \<open>toDataURL e w h m\<close> stands for the three calls \<^verbatim>\<open>imgData.data.set(rgbaMat.data)\<close>,
    \<^verbatim>\<open>ctx.putImageData(imgData, 0, 0)\<close> and \<^verbatim>\<open>canvas.toDataURL('image/png')\<close> on a canvas
    of \<open>w \<times> h\<close> pixels, \<open>m\<close> being the content of \<^verbatim>\<open>rgbaMat\<close>: the data URL, or \<open>Inl\<close> with
    the message when the browser throws while the data are stored.
\<close>

record env =
  cv :: "opencv option"
  dataUrlToMat :: "string \<Rightarrow> Mat"
  getContext :: bool
  createImageData :: "nat \<Rightarrow> nat \<Rightarrow> string + unit"
  toDataURL :: "nat \<Rightarrow> nat \<Rightarrow> Mat \<Rightarrow> string + string"

section \<open>The state of the component\<close>

record ImageState =
  original :: "string option"
  processed :: "string option"
  intermediateSteps :: "string list"

record TransformStep =
  step_id :: string
  step_type :: string
  step_params :: TransformParams
  step_name :: string

text \<open>
  Buffers are handles (natural numbers) into the provider's heap. Every allocation and
  every \<^verbatim>\<open>delete()\<close> the component performs is appended to \<open>heap_log\<close>.
\<close>

datatype event = Alloc nat | Delete nat

text \<open>
  The React state (\<open>images\<close> to \<open>originalMat\<close>), the provider's heap (\<open>mats\<close>, \<open>vecs\<close>,
  \<open>next_handle\<close>, \<open>heap_log\<close>), what the browser was asked to show (\<open>alerts\<close>,
  \<open>console\<close>), and the two local variables of \<^verbatim>\<open>applyTransformPipeline\<close> that survive
  an exception (\<open>mat\<close>, \<open>matsToRelease\<close>).
\<close>

record workbench =
  images :: ImageState
  transformPipeline :: "TransformStep list"
  selectedCategory :: string
  selectedOperation :: string
  transformParams :: TransformParams
  originalMat :: "nat option"
  mats :: "nat \<Rightarrow> Mat"
  vecs :: "nat \<Rightarrow> Mat list"
  next_handle :: nat
  heap_log :: "event list"
  alerts :: "string list"
  console :: "string list"
  mat :: nat
  matsToRelease :: "nat list"

subsection \<open>Reading the heap log\<close>


fun peak_from :: "nat list \<Rightarrow> event list \<Rightarrow> nat" where
  "peak_from L [] = length L"
| "peak_from L (Alloc h # es) = max (length L) (peak_from (L @ [h]) es)"
| "peak_from L (Delete h # es) = max (length L) (peak_from (removeAll h L) es)"



text \<open>The events a run appended: those of the final log beyond the initial one.\<close>


definition run_log :: "workbench \<Rightarrow> workbench \<Rightarrow> event list" where
  "run_log s s' = drop (length (heap_log s)) (heap_log s')"

section \<open>Statements that may throw\<close>

datatype 'a outcome = Ok 'a | Throw string

type_synonym 'a exec = "workbench \<Rightarrow> 'a outcome \<times> workbench"

definition ret :: "'a \<Rightarrow> 'a exec" where
  "ret x s = (Ok x, s)"

definition throw :: "string \<Rightarrow> 'a exec" where
  "throw msg s = (Throw msg, s)"

definition exec_bind :: "'a exec \<Rightarrow> ('a \<Rightarrow> 'b exec) \<Rightarrow> 'b exec" where
  "exec_bind m f s = (case m s of (Ok x, s') \<Rightarrow> f x s' | (Throw msg, s') \<Rightarrow> (Throw msg, s'))"

text \<open>A block of statements: the first one that throws ends the block.\<close>

fun seqs :: "unit exec list \<Rightarrow> unit exec" where
  "seqs [] s = (Ok (), s)"
| "seqs (m # ms) s = (case m s of (Ok _, s') \<Rightarrow> seqs ms s' | (Throw msg, s') \<Rightarrow> (Throw msg, s'))"

text \<open>\<^verbatim>\<open>try { body } catch (err) { throw new Error(msg) } finally { fin }\<close>, with a
  \<^verbatim>\<open>console.error\<close> in the handler.\<close>

definition try_catch_finally :: "unit exec \<Rightarrow> (string \<Rightarrow> unit exec) \<Rightarrow> unit exec \<Rightarrow> unit exec" where
  "try_catch_finally body handler fin s =
     (case body s of
        (Ok _, s1) \<Rightarrow> fin s1
      | (Throw err, s1) \<Rightarrow>
          (case handler err s1 of
             (r, s2) \<Rightarrow> (case fin s2 of (Ok _, s3) \<Rightarrow> (r, s3) | (Throw e, s3) \<Rightarrow> (Throw e, s3))))"

subsection \<open>Heap operations\<close>

text \<open>A fresh handle holding \<open>m\<close>: \<^verbatim>\<open>new cv.Mat()\<close> and every call that returns a new
  \<^verbatim>\<open>Mat\<close>.\<close>

definition alloc :: "Mat \<Rightarrow> nat exec" where
  "alloc m s =
     (let h = next_handle s
      in (Ok h, s\<lparr>mats := (mats s)(h := m), next_handle := Suc h,
                    heap_log := heap_log s @ [Alloc h]\<rparr>))"

definition new_Mat :: "nat exec" where
  "new_Mat = alloc empty_Mat"

definition new_MatVector :: "nat exec" where
  "new_MatVector s =
     (let h = next_handle s
      in (Ok h, s\<lparr>vecs := (vecs s)(h := []), next_handle := Suc h,
                    heap_log := heap_log s @ [Alloc h]\<rparr>))"

text \<open>\<^verbatim>\<open>m.delete()\<close>. The call is logged; what the provider does with a handle that was
  deleted before is not modelled.\<close>

definition delete :: "nat \<Rightarrow> unit exec" where
  "delete h s = (Ok (), s\<lparr>heap_log := heap_log s @ [Delete h]\<rparr>)"

text \<open>A primitive that writes its result into an existing buffer \<open>dst\<close>, and one that
  returns a new buffer.\<close>

definition cv_into :: "opencv \<Rightarrow> prim \<Rightarrow> nat list \<Rightarrow> nat \<Rightarrow> unit exec" where
  "cv_into c p srcs dst s =
     (case call c p (map (mats s) srcs) of
        Inl msg \<Rightarrow> (Throw msg, s)
      | Inr m \<Rightarrow> (Ok (), s\<lparr>mats := (mats s)(dst := m)\<rparr>))"

definition cv_new :: "opencv \<Rightarrow> prim \<Rightarrow> nat list \<Rightarrow> nat exec" where
  "cv_new c p srcs s =
     (case call c p (map (mats s) srcs) of
        Inl msg \<Rightarrow> (Throw msg, s)
      | Inr m \<Rightarrow> alloc m s)"

text \<open>\<^verbatim>\<open>cv.split(src, channels)\<close> and \<^verbatim>\<open>cv.merge(channels, dst)\<close>.\<close>

definition cv_split :: "opencv \<Rightarrow> nat \<Rightarrow> nat \<Rightarrow> unit exec" where
  "cv_split c src channels s =
     (case split c (mats s src) of
        Inl msg \<Rightarrow> (Throw msg, s)
      | Inr chs \<Rightarrow> (Ok (), s\<lparr>vecs := (vecs s)(channels := chs)\<rparr>))"

definition cv_merge :: "opencv \<Rightarrow> nat \<Rightarrow> nat \<Rightarrow> unit exec" where
  "cv_merge c channels dst s =
     (case call c Merge (vecs s channels) of
        Inl msg \<Rightarrow> (Throw msg, s)
      | Inr m \<Rightarrow> (Ok (), s\<lparr>mats := (mats s)(dst := m)\<rparr>))"

text \<open>A primitive applied in place to \<^verbatim>\<open>channels.get(i)\<close>, with further input buffers
  \<open>extra\<close>. \<^verbatim>\<open>channels.get(i)\<close> is a reference into the vector and is not counted as an
  allocation; beyond the end of the vector the access throws.\<close>

definition cv_on_channel :: "opencv \<Rightarrow> prim \<Rightarrow> nat \<Rightarrow> nat \<Rightarrow> nat list \<Rightarrow> unit exec" where
  "cv_on_channel c p channels i extra s =
     (let chs = vecs s channels
      in if length chs \<le> i then (Throw ''index out of range'', s)
         else (case call c p (chs ! i # map (mats s) extra) of
                 Inl msg \<Rightarrow> (Throw msg, s)
               | Inr m \<Rightarrow> (Ok (), s\<lparr>vecs := (vecs s)(channels := chs[i := m])\<rparr>)))"

text \<open>Assignments to the two locals, and the two messages.\<close>

definition set_mat :: "nat \<Rightarrow> unit exec" where
  "set_mat h s = (Ok (), s\<lparr>mat := h\<rparr>)"

definition push_matsToRelease :: "nat \<Rightarrow> unit exec" where
  "push_matsToRelease h s = (Ok (), s\<lparr>matsToRelease := matsToRelease s @ [h]\<rparr>)"

definition console_error :: "string \<Rightarrow> unit exec" where
  "console_error msg s = (Ok (), s\<lparr>console := console s @ [msg]\<rparr>)"

section \<open>The executor: one branch per operation\<close>

text \<open>
  Each definition below is one branch of the \<^verbatim>\<open>if\<close>/\<^verbatim>\<open>else if\<close> chain inside the loop
  of \<^verbatim>\<open>applyTransformPipeline\<close>. \<open>s\<close> is the state on entry of the branch, so \<open>mat s\<close>
  is the current buffer \<^verbatim>\<open>mat\<close>, and \<open>p\<close> is \<^verbatim>\<open>step.params\<close>.
\<close>

definition op_grayscale :: "opencv \<Rightarrow> unit exec" where
  "op_grayscale c s =
     exec_bind new_Mat (\<lambda>gray.
       seqs [cv_into c (CvtColor COLOR_RGBA2GRAY) [mat s] gray,
             cv_into c (CvtColor COLOR_GRAY2RGBA) [gray] (mat s),
             delete gray]) s"

definition op_resize :: "opencv \<Rightarrow> TransformParams \<Rightarrow> unit exec" where
  "op_resize c p s =
     exec_bind new_Mat (\<lambda>resized.
       let width = js_or (num_param p ''resizeWidth'') (real (cols (mats s (mat s))));
           height = js_or (num_param p ''resizeHeight'') (real (rows (mats s (mat s))))
       in seqs [cv_into c (Resize width height) [mat s] resized,
                delete (mat s),
                set_mat resized,
                push_matsToRelease resized]) s"

text \<open>The pixel rectangle of a crop: percentages of the current size, floored, with the
  origin clamped to 0 and the extent to 1. \<^verbatim>\<open>(step.params.cropX ?? 0) / 100 * mat.cols\<close> is
  a division of doubles followed by a multiplication of doubles.\<close>

definition crop_rect :: "TransformParams \<Rightarrow> Mat \<Rightarrow> int \<times> int \<times> int \<times> int" where
  "crop_rect p m =
     (let x = max 0 (Math_floor (js_mul (js_div (nullish (num_param p ''cropX'') 0) 100) (real (cols m))));
          y = max 0 (Math_floor (js_mul (js_div (nullish (num_param p ''cropY'') 0) 100) (real (rows m))));
          w = max 1 (Math_floor (js_mul (js_div (nullish (num_param p ''cropWidth'') 100) 100) (real (cols m))));
          h = max 1 (Math_floor (js_mul (js_div (nullish (num_param p ''cropHeight'') 100) 100) (real (rows m))))
      in (x, y, w, h))"

definition op_crop :: "opencv \<Rightarrow> TransformParams \<Rightarrow> unit exec" where
  "op_crop c p s =
     (case crop_rect p (mats s (mat s)) of
        (x, y, w, h) \<Rightarrow>
          exec_bind (cv_new c (Roi x y w h) [mat s]) (\<lambda>roi.
            seqs [delete (mat s),
                  set_mat roi,
                  push_matsToRelease roi]) s)"

definition op_flip :: "opencv \<Rightarrow> TransformParams \<Rightarrow> unit exec" where
  "op_flip c p s =
     exec_bind new_Mat (\<lambda>flipped.
       let flipCode = (if p ''flipDirection'' = Some (Str ''horizontal'') then 1 else 0)
       in seqs [cv_into c (Flip flipCode) [mat s] flipped,
                delete (mat s),
                set_mat flipped,
                push_matsToRelease flipped]) s"

definition op_rotate :: "opencv \<Rightarrow> TransformParams \<Rightarrow> unit exec" where
  "op_rotate c p s =
     exec_bind new_Mat (\<lambda>rotated.
       let angle = js_or (num_param p ''rotateAngle'') 0;
           m = mats s (mat s)
       in seqs [if angle = 90 then cv_into c (Rotate ROTATE_90_CLOCKWISE) [mat s] rotated
                else if angle = 180 then cv_into c (Rotate ROTATE_180) [mat s] rotated
                else if angle = 270 then cv_into c (Rotate ROTATE_90_COUNTERCLOCKWISE) [mat s] rotated
                else exec_bind
                       (cv_new c (GetRotationMatrix2D (real (cols m) / 2) (real (rows m) / 2) angle 1) [])
                       (\<lambda>M. seqs [cv_into c (WarpAffine (real (cols m)) (real (rows m))) [mat s, M] rotated,
                                  delete M]),
                delete (mat s),
                set_mat rotated,
                push_matsToRelease rotated]) s"

text \<open>The branches \<^verbatim>\<open>hsv\<close>, \<^verbatim>\<open>lab\<close> and \<^verbatim>\<open>ycrcb\<close> convert there and back.\<close>

definition op_colorspace :: "opencv \<Rightarrow> color_code \<Rightarrow> color_code \<Rightarrow> unit exec" where
  "op_colorspace c there back s =
     exec_bind new_Mat (\<lambda>out.
       seqs [cv_into c (CvtColor there) [mat s] out,
             cv_into c (CvtColor back) [out] (mat s),
             delete out]) s"

text \<open>\<^verbatim>\<open>contrast\<close> and \<^verbatim>\<open>brightness\<close> share one branch.\<close>

definition contrast_alpha :: "TransformParams \<Rightarrow> real" where
  "contrast_alpha p = nullish (num_param p ''contrast'') 100 / 100"

definition brightness_beta :: "TransformParams \<Rightarrow> real" where
  "brightness_beta p = (nullish (num_param p ''brightness'') 100 - 100) * (255 / 100)"

definition op_contrast_brightness :: "opencv \<Rightarrow> TransformParams \<Rightarrow> unit exec" where
  "op_contrast_brightness c p s =
     cv_into c (ConvertTo (- 1) (contrast_alpha p) (brightness_beta p)) [mat s] (mat s) s"

text \<open>The lookup table of the gamma branch: \<^verbatim>\<open>lut.data[i] = Math.pow(i / 255, gamma) * 255\<close>
  for \<open>i\<close> from 0 to 255, stored into 8-bit elements.\<close>

definition gamma_table :: "real \<Rightarrow> int list" where
  "gamma_table g = map (\<lambda>i. ToUint8 (Math_pow (real i / 255) g * 255)) [0..<256]"

definition lut_Mat :: "int list \<Rightarrow> Mat" where
  "lut_Mat t = \<lparr>rows = 1, cols = 256, depth = CV_8U, planes = [[t]]\<rparr>"

text \<open>The table is allocated and filled, the image is split, every channel is looked up
  in place, and the channels are merged back. The loop bound \<^verbatim>\<open>channels.size()\<close> is read
  on entry of the loop; the loop body does not change it.\<close>

definition op_gamma :: "opencv \<Rightarrow> TransformParams \<Rightarrow> unit exec" where
  "op_gamma c p s =
     (let gamma = nullish (num_param p ''gamma'') 1
      in exec_bind (alloc (lut_Mat (gamma_table gamma))) (\<lambda>lut.
         exec_bind new_MatVector (\<lambda>channels.
           seqs [cv_split c (mat s) channels,
                 (\<lambda>s'. seqs (map (\<lambda>i. cv_on_channel c LUT channels i [lut])
                                  [0..<length (vecs s' channels)]) s'),
                 cv_merge c channels (mat s),
                 delete lut,
                 delete channels])) s)"

definition op_hist_eq :: "opencv \<Rightarrow> unit exec" where
  "op_hist_eq c s =
     exec_bind new_Mat (\<lambda>ycrcb.
       exec_bind (cv_into c (CvtColor COLOR_RGBA2YCrCb) [mat s] ycrcb) (\<lambda>_.
         exec_bind new_MatVector (\<lambda>channels.
           seqs [cv_split c ycrcb channels,
                 cv_on_channel c EqualizeHist channels 0 [],
                 cv_merge c channels ycrcb,
                 cv_into c (CvtColor COLOR_YCrCb2RGBA) [ycrcb] (mat s),
                 delete ycrcb,
                 delete channels]))) s"

text \<open>The kernel size of both blurs: \<^verbatim>\<open>ksize|1\<close> with \<^verbatim>\<open>ksize = step.params.blur || 5\<close>.\<close>

definition blur_ksize :: "TransformParams \<Rightarrow> int" where
  "blur_ksize p = ToInt32 (js_or (num_param p ''blur'') 5) OR 1"

definition op_gaussian_blur :: "opencv \<Rightarrow> TransformParams \<Rightarrow> unit exec" where
  "op_gaussian_blur c p s =
     exec_bind new_Mat (\<lambda>out.
       seqs [cv_into c (GaussianBlur (blur_ksize p) (blur_ksize p) 0) [mat s] out,
             delete (mat s),
             set_mat out,
             push_matsToRelease out]) s"

definition op_median_blur :: "opencv \<Rightarrow> TransformParams \<Rightarrow> unit exec" where
  "op_median_blur c p s =
     exec_bind new_Mat (\<lambda>out.
       seqs [cv_into c (MedianBlur (blur_ksize p)) [mat s] out,
             delete (mat s),
             set_mat out,
             push_matsToRelease out]) s"

text \<open>The bilateral filter converts a four-channel buffer to three channels first, and
  wraps the filter in its own \<^verbatim>\<open>try\<close>/\<^verbatim>\<open>catch\<close>/\<^verbatim>\<open>finally\<close>.\<close>

definition op_bilateral :: "opencv \<Rightarrow> TransformParams \<Rightarrow> unit exec" where
  "op_bilateral c p s =
     exec_bind new_Mat (\<lambda>out.
     exec_bind
       (if mat_type (mats s (mat s)) = CV_8UC4
        then exec_bind new_Mat (\<lambda>converted.
               exec_bind (cv_into c (CvtColor COLOR_RGBA2RGB) [mat s] converted) (\<lambda>_.
                 ret (Some converted)))
        else ret None) (\<lambda>converted.
     let input = (case converted of Some h \<Rightarrow> h | None \<Rightarrow> mat s);
         d = max 1 (Math_round (js_or (num_param p ''bilateralDiameter'') 9));
         sigmaColor = max 1 (js_or (num_param p ''bilateralSigmaColor'') 75);
         sigmaSpace = max 1 (js_or (num_param p ''bilateralSigmaSpace'') 75)
     in try_catch_finally
          (seqs [cv_into c (BilateralFilter (real_of_int d) sigmaColor sigmaSpace) [input] out,
                 (\<lambda>s'. if mat_type (mats s' (mat s)) = CV_8UC4
                       then cv_into c (CvtColor COLOR_RGB2RGBA) [out] (mat s) s'
                       else cv_into c CopyTo [out] (mat s) s')])
          (\<lambda>err. seqs [console_error (''Bilateral filter error: '' @ err),
                        throw ''Bilateral filter failed. Please check parameter values.''])
          (seqs [delete out,
                 (case converted of Some h \<Rightarrow> delete h | None \<Rightarrow> ret ())]))) s"

definition op_canny :: "opencv \<Rightarrow> TransformParams \<Rightarrow> unit exec" where
  "op_canny c p s =
     exec_bind new_Mat (\<lambda>out.
       seqs [cv_into c (Canny (js_or (num_param p ''cannyThreshold1'') 50)
                              (js_or (num_param p ''cannyThreshold2'') 150)) [mat s] out,
             cv_into c (CvtColor COLOR_GRAY2RGBA) [out] (mat s),
             delete out]) s"

definition op_sobel :: "opencv \<Rightarrow> TransformParams \<Rightarrow> unit exec" where
  "op_sobel c p s =
     exec_bind new_Mat (\<lambda>gray.
     exec_bind (cv_into c (CvtColor COLOR_RGBA2GRAY) [mat s] gray) (\<lambda>_.
     exec_bind new_Mat (\<lambda>grad.
     exec_bind (cv_into c (Sobel CV_16S (js_or (num_param p ''sobelDx'') 1)
                                          (js_or (num_param p ''sobelDy'') 0)) [gray] grad) (\<lambda>_.
     exec_bind new_Mat (\<lambda>absGrad.
       seqs [cv_into c ConvertScaleAbs [grad] absGrad,
             cv_into c (CvtColor COLOR_GRAY2RGBA) [absGrad] (mat s),
             delete gray,
             delete grad,
             delete absGrad]))))) s"

definition op_laplacian :: "opencv \<Rightarrow> unit exec" where
  "op_laplacian c s =
     exec_bind new_Mat (\<lambda>gray.
     exec_bind (cv_into c (CvtColor COLOR_RGBA2GRAY) [mat s] gray) (\<lambda>_.
     exec_bind new_Mat (\<lambda>lap.
     exec_bind (cv_into c (Laplacian CV_16S) [gray] lap) (\<lambda>_.
     exec_bind new_Mat (\<lambda>absLap.
       seqs [cv_into c ConvertScaleAbs [lap] absLap,
             cv_into c (CvtColor COLOR_GRAY2RGBA) [absLap] (mat s),
             delete gray,
             delete lap,
             delete absLap]))))) s"

text \<open>The three thresholds differ only in the primitive applied to the gray image.\<close>

definition op_thresh :: "opencv \<Rightarrow> prim \<Rightarrow> unit exec" where
  "op_thresh c th s =
     exec_bind new_Mat (\<lambda>gray.
     exec_bind (cv_into c (CvtColor COLOR_RGBA2GRAY) [mat s] gray) (\<lambda>_.
     exec_bind new_Mat (\<lambda>out.
       seqs [cv_into c th [gray] out,
             cv_into c (CvtColor COLOR_GRAY2RGBA) [out] (mat s),
             delete gray,
             delete out]))) s"

definition simple_thresh_prim :: "TransformParams \<Rightarrow> prim" where
  "simple_thresh_prim p = Threshold (js_or (num_param p ''threshold'') 128) 255 THRESH_BINARY"

definition adaptive_thresh_prim :: "TransformParams \<Rightarrow> prim" where
  "adaptive_thresh_prim p =
     AdaptiveThreshold 255 (js_or (num_param p ''adaptiveBlockSize'') 11)
                           (js_or (num_param p ''adaptiveC'') 2)"

definition otsu_prim :: prim where
  "otsu_prim = Threshold 0 255 THRESH_BINARY_OTSU"

definition op_morph :: "opencv \<Rightarrow> string \<Rightarrow> TransformParams \<Rightarrow> unit exec" where
  "op_morph c t p s =
     exec_bind new_Mat (\<lambda>out.
       let ksize = js_or (num_param p ''morphKernelSize'') 3
       in exec_bind (cv_new c (GetStructuringElement ksize ksize) []) (\<lambda>kernel.
            seqs [if t = ''erode'' then cv_into c Erode [mat s, kernel] out else ret (),
                  if t = ''dilate'' then cv_into c Dilate [mat s, kernel] out else ret (),
                  if t = ''open'' then cv_into c (MorphologyEx MORPH_OPEN) [mat s, kernel] out else ret (),
                  if t = ''close'' then cv_into c (MorphologyEx MORPH_CLOSE) [mat s, kernel] out else ret (),
                  delete (mat s),
                  set_mat out,
                  push_matsToRelease out,
                  delete kernel])) s"

definition op_translate :: "opencv \<Rightarrow> TransformParams \<Rightarrow> unit exec" where
  "op_translate c p s =
     exec_bind new_Mat (\<lambda>out.
       let m = mats s (mat s)
       in exec_bind (cv_new c (MatFromArray 2 3 CV_64F
                       [1, 0, js_or (num_param p ''translateX'') 0,
                        0, 1, js_or (num_param p ''translateY'') 0]) []) (\<lambda>M.
            seqs [cv_into c (WarpAffine (real (cols m)) (real (rows m))) [mat s, M] out,
                  delete (mat s),
                  set_mat out,
                  push_matsToRelease out,
                  delete M])) s"

definition op_draw_text :: "opencv \<Rightarrow> TransformParams \<Rightarrow> unit exec" where
  "op_draw_text c p s =
     cv_into c (PutText (js_or_str (str_param p ''text'') [])
                        (js_or (num_param p ''textX'') 10)
                        (js_or (num_param p ''textY'') 30)
                        (js_or (num_param p ''textFontSize'') 1 / 10)
                        [0, 0, 0, 255] 2) [mat s] (mat s) s"

subsection \<open>The dispatch on the operation identifier\<close>

text \<open>The body of the inner \<^verbatim>\<open>try\<close>, in the order of the source. The branches of
  \<^verbatim>\<open>hed\<close>, \<^verbatim>\<open>cmyk\<close>, \<^verbatim>\<open>nl_means\<close>, \<^verbatim>\<open>perspective\<close>, \<^verbatim>\<open>affine\<close>, \<^verbatim>\<open>add_weighted\<close>,
  \<^verbatim>\<open>find_contours\<close> and \<^verbatim>\<open>feature_detect\<close> hold a comment only, and an identifier that
  matches no branch falls through the chain.\<close>

definition run_step :: "opencv \<Rightarrow> TransformStep \<Rightarrow> unit exec" where
  "run_step c step =
     (let t = step_type step; p = step_params step
      in if t = ''grayscale'' then op_grayscale c
         else if t = ''resize'' then op_resize c p
         else if t = ''crop'' then op_crop c p
         else if t = ''flip'' then op_flip c p
         else if t = ''rotate'' then op_rotate c p
         else if t = ''hsv'' then op_colorspace c COLOR_RGBA2HSV COLOR_HSV2RGBA
         else if t = ''lab'' then op_colorspace c COLOR_RGBA2Lab COLOR_Lab2RGBA
         else if t = ''ycrcb'' then op_colorspace c COLOR_RGBA2YCrCb COLOR_YCrCb2RGBA
         else if t = ''hed'' \<or> t = ''cmyk'' then ret ()
         else if t = ''contrast'' \<or> t = ''brightness'' then op_contrast_brightness c p
         else if t = ''gamma'' then op_gamma c p
         else if t = ''hist_eq'' then op_hist_eq c
         else if t = ''gaussian_blur'' then op_gaussian_blur c p
         else if t = ''median_blur'' then op_median_blur c p
         else if t = ''bilateral'' then op_bilateral c p
         else if t = ''nl_means'' then ret ()
         else if t = ''canny'' then op_canny c p
         else if t = ''sobel'' then op_sobel c p
         else if t = ''laplacian'' then op_laplacian c
         else if t = ''simple_thresh'' then op_thresh c (simple_thresh_prim p)
         else if t = ''adaptive_thresh'' then op_thresh c (adaptive_thresh_prim p)
         else if t = ''otsu'' then op_thresh c otsu_prim
         else if t \<in> set [''erode'', ''dilate'', ''open'', ''close''] then op_morph c t p
         else if t = ''translate'' then op_translate c p
         else if t = ''perspective'' then ret ()
         else if t = ''affine'' then ret ()
         else if t = ''add_weighted'' then ret ()
         else if t = ''find_contours'' then ret ()
         else if t = ''draw_text'' then op_draw_text c p
         else if t = ''feature_detect'' then ret ()
         else ret ())"

subsection \<open>The loop, its handler and the run\<close>

definition quoted :: "string \<Rightarrow> string" where
  "quoted x = [CHR 0x27] @ x @ [CHR 0x27]"

text \<open>The \<^verbatim>\<open>for\<close> loop over the pipeline. The handler of a failing step logs the
  operation identifier to the console, clears the processed image, alerts the display name
  and leaves the loop with \<^verbatim>\<open>break\<close>.\<close>

fun run_steps :: "opencv \<Rightarrow> TransformStep list \<Rightarrow> workbench \<Rightarrow> workbench" where
  "run_steps c [] s = s"
| "run_steps c (step # rest) s =
     (case run_step c step s of
        (Ok _, s') \<Rightarrow> run_steps c rest s'
      | (Throw err, s') \<Rightarrow>
          s'\<lparr>console := console s' @ [''Error in operation '' @ quoted (step_type step) @ '': '' @ err],
             images := (images s')\<lparr>processed := None\<rparr>,
             alerts := alerts s' @ [''Error in operation '' @ quoted (step_name step) @ '': '' @ err]\<rparr>)"

text \<open>The \<^verbatim>\<open>finally\<close> block: \<^verbatim>\<open>delete()\<close> on every element of \<^verbatim>\<open>matsToRelease\<close>.\<close>

fun release_all :: "nat list \<Rightarrow> workbench \<Rightarrow> workbench" where
  "release_all [] s = s"
| "release_all (m # ms) s = release_all ms (snd (delete m s))"

text \<open>
  \<^verbatim>\<open>matToDataUrl(mat, cv)\<close> of \<^verbatim>\<open>lib/utils\<close>, with \<open>m\<close> the handle of \<^verbatim>\<open>mat\<close>. Without a
  canvas context the helper throws. A buffer whose type is not \<^verbatim>\<open>CV_8UC4\<close> is converted
  into a new buffer \<^verbatim>\<open>rgbaMat\<close>, which is deleted once its data are on the canvas; when
  the conversion or the canvas throws, that buffer is not deleted.
\<close>

definition matToDataUrl :: "env \<Rightarrow> opencv \<Rightarrow> nat \<Rightarrow> string exec" where
  "matToDataUrl e c m s =
     (if \<not> getContext e then (Throw ''No canvas context'', s)
      else
        (case createImageData e (cols (mats s m)) (rows (mats s m)) of
           Inl msg \<Rightarrow> (Throw msg, s)
         | Inr _ \<Rightarrow>
             exec_bind
               (if mat_type (mats s m) \<noteq> CV_8UC4
                then exec_bind new_Mat (\<lambda>rgbaMat.
                       exec_bind (cv_into c (CvtColor COLOR_RGBA2BGRA) [m] rgbaMat) (\<lambda>_.
                         ret rgbaMat))
                else ret m)
               (\<lambda>rgbaMat s'.
                  case toDataURL e (cols (mats s m)) (rows (mats s m)) (mats s' rgbaMat) of
                    Inl msg \<Rightarrow> (Throw msg, s')
                  | Inr url \<Rightarrow>
                      exec_bind (if rgbaMat \<noteq> m then delete rgbaMat else ret ())
                                (\<lambda>_. ret url) s') s))"

text \<open>
  \<^verbatim>\<open>applyTransformPipeline\<close>. After the loop, whether it ended at the last step or by
  \<^verbatim>\<open>break\<close>, the current buffer is encoded and stored as the processed image. The outer
  \<^verbatim>\<open>try\<close> has no handler: when the encoding throws, the \<^verbatim>\<open>finally\<close> block runs, no
  processed image is stored, and the exception leaves the function.
\<close>

definition applyTransformPipeline :: "env \<Rightarrow> workbench \<Rightarrow> workbench" where
  "applyTransformPipeline e s =
     (case (originalMat s, cv e) of
        (Some src, Some c) \<Rightarrow>
          if transformPipeline s = []
          then s\<lparr>images := (images s)\<lparr>processed := original (images s), intermediateSteps := []\<rparr>\<rparr>
          else
            (let s1 = s\<lparr>images := (images s)\<lparr>processed := None\<rparr>\<rparr>;
                 clone = next_handle s1;
                 s2 = snd (alloc (mats s1 src) s1);
                 s3 = s2\<lparr>mat := clone, matsToRelease := [clone]\<rparr>;
                 s4 = run_steps c (transformPipeline s) s3
             in case matToDataUrl e c (mat s4) s4 of
                  (Ok processedUrl, s5) \<Rightarrow>
                    release_all (matsToRelease s5)
                      (s5\<lparr>images := (images s5)\<lparr>processed := Some processedUrl,
                                                  intermediateSteps := []\<rparr>\<rparr>)
                | (Throw msg, s5) \<Rightarrow> release_all (matsToRelease s5) s5)
      | _ \<Rightarrow> s)"

section \<open>The code synthesizer\<close>

text \<open>
  \<^verbatim>\<open>generatePythonCode\<close> builds its text from template literals. The text is kept as a
  list of pieces: literal text, and the numbers the templates interpolate, so that the
  conversion of a number to its decimal digits need not be modelled.
\<close>

datatype piece = Txt string | Lit real

definition nl :: string where
  "nl = [CHR 0x0A]"

definition code_header :: string where
  "code_header =
     ''import cv2'' @ nl @
     ''import numpy as np'' @ nl @
     ''from PIL import Image, ImageEnhance'' @ nl @ nl @
     ''# Load image'' @ nl @
     ''image = cv2.imread('input_image.jpg')'' @ nl @
     ''processed_image = image.copy()'' @ nl @ nl @
     ''# Apply transform pipeline'' @ nl"

definition code_footer :: string where
  "code_footer =
     nl @ ''# Save final processed image'' @ nl @
     ''cv2.imwrite('output_image.jpg', processed_image)''"

text \<open>The comment line every step gets, before the \<^verbatim>\<open>switch\<close>.\<close>

definition step_comment :: "nat \<Rightarrow> TransformStep \<Rightarrow> piece list" where
  "step_comment index step =
     [Txt (nl @ ''# Step ''), Lit (real (index + 1)), Txt ('': '' @ step_name step @ nl)]"

text \<open>The kernel size the \<^verbatim>\<open>blur\<close> case writes: \<^verbatim>\<open>(step.params.blur || 1) * 2 + 1\<close>.\<close>

definition py_blur_ksize :: "TransformParams \<Rightarrow> real" where
  "py_blur_ksize p = js_or (num_param p ''blur'') 1 * 2 + 1"

text \<open>The \<^verbatim>\<open>switch\<close> on \<^verbatim>\<open>step.type\<close>; it has six cases and no default.\<close>

definition step_code :: "TransformStep \<Rightarrow> piece list" where
  "step_code step =
     (let t = step_type step; p = step_params step
      in if t = ''blur'' then
           [Txt ''processed_image = cv2.GaussianBlur(processed_image, ('',
            Lit (py_blur_ksize p), Txt '', '', Lit (py_blur_ksize p), Txt ('')'' @ '', 0)'' @ nl)]
         else if t = ''threshold'' then
           [Txt (''gray = cv2.cvtColor(processed_image, cv2.COLOR_BGR2GRAY)'' @ nl @
                 ''_, processed_image = cv2.threshold(gray, ''),
            Lit (js_or (num_param p ''threshold'') 128),
            Txt ('', 255, cv2.THRESH_BINARY)'' @ nl @
                 ''processed_image = cv2.cvtColor(processed_image, cv2.COLOR_GRAY2BGR)'' @ nl)]
         else if t = ''contrast'' then
           [Txt (''pil_image = Image.fromarray(cv2.cvtColor(processed_image, cv2.COLOR_BGR2RGB))'' @ nl @
                 ''enhancer = ImageEnhance.Contrast(pil_image)'' @ nl @
                 ''processed_image = cv2.cvtColor(np.array(enhancer.enhance(''),
            Lit (js_or (num_param p ''contrast'') 100 / 100),
            Txt (''))'' @ '', cv2.COLOR_RGB2BGR)'' @ nl)]
         else if t = ''brightness'' then
           [Txt ''processed_image = cv2.convertScaleAbs(processed_image, alpha='',
            Lit (js_or (num_param p ''brightness'') 100 / 100),
            Txt ('', beta=0)'' @ nl)]
         else if t = ''sharpen'' then
           [Txt (''kernel = np.array([[-1,-1,-1], [-1,9,-1], [-1,-1,-1]])'' @ nl @
                 ''processed_image = cv2.filter2D(processed_image, -1, kernel)'' @ nl)]
         else if t = ''crop'' then
           [Txt (''height, width = processed_image.shape[:2]'' @ nl @ ''x = int(width * ''),
            Lit (js_or (num_param p ''cropX'') 0 / 100),
            Txt ('')'' @ nl @ ''y = int(height * ''),
            Lit (js_or (num_param p ''cropY'') 0 / 100),
            Txt ('')'' @ nl @ ''w = int(width * ''),
            Lit (js_or (num_param p ''cropWidth'') 100 / 100),
            Txt ('')'' @ nl @ ''h = int(height * ''),
            Lit (js_or (num_param p ''cropHeight'') 100 / 100),
            Txt ('')'' @ nl @ ''processed_image = processed_image[y:y+h, x:x+w]'' @ nl)]
         else [])"

text \<open>What one iteration of \<^verbatim>\<open>forEach\<close> appends to \<^verbatim>\<open>code\<close>.\<close>

definition emit_step :: "nat \<Rightarrow> TransformStep \<Rightarrow> piece list" where
  "emit_step index step = step_comment index step @ step_code step"

definition generatePythonCode :: "TransformStep list \<Rightarrow> piece list" where
  "generatePythonCode pipeline =
     (if pipeline = [] then []
      else [Txt code_header]
           @ concat (map (\<lambda>(index, step). emit_step index step) (enumerate 0 pipeline))
           @ [Txt code_footer])"

text \<open>The numbers that appear in a text.\<close>

definition literals :: "piece list \<Rightarrow> real list" where
  "literals ps = concat (map (\<lambda>x. case x of Lit v \<Rightarrow> [v] | Txt _ \<Rightarrow> []) ps)"

section \<open>The catalog and the step builder\<close>

text \<open>\<^verbatim>\<open>TRANSFORM_CATEGORIES\<close>: each operation with its identifier, label and parameter
  keys.\<close>

type_synonym operation = "string \<times> string \<times> string list"

definition TRANSFORM_CATEGORIES :: "(string \<times> operation list) list" where
  "TRANSFORM_CATEGORIES =
   [(''Basic Operations'',
       [(''grayscale'', ''Grayscale'', []),
        (''resize'', ''Resize'', [''resizeWidth'', ''resizeHeight'']),
        (''crop'', ''Crop'', [''cropX'', ''cropY'', ''cropWidth'', ''cropHeight'']),
        (''flip'', ''Flip'', [''flipDirection'']),
        (''rotate'', ''Rotate'', [''rotateAngle''])]),
    (''Color Spaces'',
       [(''hsv'', ''Convert to HSV'', []),
        (''lab'', ''Convert to LAB'', []),
        (''ycrcb'', ''Convert to YCrCb'', []),
        (''hed'', ''Convert to HED'', []),
        (''cmyk'', ''Convert to CMYK'', [])]),
    (''Point Operations'',
       [(''brightness'', ''Brightness Adjustment'', [''brightness'']),
        (''contrast'', ''Contrast Adjustment'', [''contrast'']),
        (''gamma'', ''Gamma Correction'', [''gamma'']),
        (''hist_eq'', ''Histogram Equalization'', [])]),
    (''Blurring'',
       [(''gaussian_blur'', ''Gaussian Blur'', [''blur'']),
        (''median_blur'', ''Median Blur'', [''blur'']),
        (''bilateral'', ''Bilateral Filter'',
           [''bilateralDiameter'', ''bilateralSigmaColor'', ''bilateralSigmaSpace'']),
        (''nl_means'', ''Non-local Means Denoising'', [''nlStrength''])]),
    (''Edge Detection'',
       [(''canny'', ''Canny Edge'', [''cannyThreshold1'', ''cannyThreshold2'']),
        (''sobel'', ''Sobel Edge'', [''sobelDx'', ''sobelDy'']),
        (''laplacian'', ''Laplacian Edge'', [])]),
    (''Thresholding'',
       [(''simple_thresh'', ''Simple Threshold'', [''threshold'']),
        (''adaptive_thresh'', ''Adaptive Threshold'', [''adaptiveBlockSize'', ''adaptiveC'']),
        (''otsu'', ''Otsu Threshold'', [])]),
    (''Morphological'',
       [(''erode'', ''Erosion'', [''morphKernelSize'']),
        (''dilate'', ''Dilation'', [''morphKernelSize'']),
        (''open'', ''Opening'', [''morphKernelSize'']),
        (''close'', ''Closing'', [''morphKernelSize''])]),
    (''Geometric'',
       [(''translate'', ''Translation'', [''translateX'', ''translateY'']),
        (''perspective'', ''Perspective Transform'', [''perspectivePoints'']),
        (''affine'', ''Affine Transform'', [''affinePoints''])]),
    (''Blending & Arithmetic'',
       [(''add_weighted'', ''AddWeighted Blend'', [''blendAlpha'', ''blendBeta''])]),
    (''Contours & Annotation'',
       [(''find_contours'', ''Find Contours'', []),
        (''draw_text'', ''Draw Text'', [''text'', ''textX'', ''textY'', ''textFontSize'', ''textColor'']),
        (''feature_detect'', ''Feature Detection'', [])])]"

text \<open>The identifiers of the catalog.\<close>

definition catalog_ids :: "string list" where
  "catalog_ids = concat (map (\<lambda>(cat, ops). map fst ops) TRANSFORM_CATEGORIES)"

definition DEFAULT_PARAMS :: TransformParams where
  "DEFAULT_PARAMS =
     [''blur'' \<mapsto> Num 5, ''threshold'' \<mapsto> Num 128, ''contrast'' \<mapsto> Num 120,
      ''brightness'' \<mapsto> Num 110, ''sharpen'' \<mapsto> Num 1, ''cropX'' \<mapsto> Num 10,
      ''cropY'' \<mapsto> Num 10, ''cropWidth'' \<mapsto> Num 80, ''cropHeight'' \<mapsto> Num 80]"

definition currentCategory :: "workbench \<Rightarrow> (string \<times> operation list) option" where
  "currentCategory s = find (\<lambda>cat. fst cat = selectedCategory s) TRANSFORM_CATEGORIES"

definition currentOperation :: "workbench \<Rightarrow> operation option" where
  "currentOperation s =
     (case currentCategory s of
        None \<Rightarrow> None
      | Some cat \<Rightarrow> find (\<lambda>op. fst op = selectedOperation s) (snd cat))"

text \<open>The slider of a parameter stores the chosen value in \<^verbatim>\<open>transformParams\<close>.\<close>

definition slider_onValueChange :: "string \<Rightarrow> real \<Rightarrow> workbench \<Rightarrow> workbench" where
  "slider_onValueChange param v s = s\<lparr>transformParams := (transformParams s)(param \<mapsto> Num v)\<rparr>"

text \<open>
  \<^verbatim>\<open>addTransformToPipeline\<close>. The identity of the new step comes from \<^verbatim>\<open>Math.random\<close> and
  is passed in as \<open>new_id\<close>. The name is \<^verbatim>\<open>currentOperation?.label || selectedOperation\<close>.
\<close>

definition addTransformToPipeline :: "string \<Rightarrow> workbench \<Rightarrow> workbench" where
  "addTransformToPipeline new_id s =
     (if selectedOperation s = [] then s
      else
        (let newStep =
               \<lparr>step_id = new_id,
                step_type = selectedOperation s,
                step_params = DEFAULT_PARAMS,
                step_name = js_or_str (map_option (\<lambda>op. fst (snd op)) (currentOperation s))
                                      (selectedOperation s)\<rparr>
         in s\<lparr>transformPipeline := transformPipeline s @ [newStep], selectedOperation := []\<rparr>))"

text \<open>The \<^verbatim>\<open>onClick\<close> handler of the button "Add to Pipeline", which is rendered only
  while \<^verbatim>\<open>currentOperation\<close> is set and repeats the body above.\<close>

definition addButton_onClick :: "string \<Rightarrow> workbench \<Rightarrow> workbench" where
  "addButton_onClick new_id s =
     (case currentOperation s of
        None \<Rightarrow> s
      | Some op \<Rightarrow>
          if selectedOperation s = [] then s
          else
            (let newStep =
                   \<lparr>step_id = new_id,
                    step_type = selectedOperation s,
                    step_params = DEFAULT_PARAMS,
                    step_name = fst (snd op)\<rparr>
             in s\<lparr>transformPipeline := transformPipeline s @ [newStep], selectedOperation := []\<rparr>))"

text \<open>
  The \<^verbatim>\<open>onload\<close> handler of \<^verbatim>\<open>handleImageUpload\<close>, with \<open>result\<close> the data URL read from
  the file: the source buffer is decoded when \<^verbatim>\<open>cv\<close> is there, and the images and the
  pipeline are reset.
\<close>

definition handleImageUpload :: "env \<Rightarrow> string \<Rightarrow> workbench \<Rightarrow> workbench" where
  "handleImageUpload e result s =
     (let s1 = (case cv e of
                  None \<Rightarrow> s
                | Some c \<Rightarrow>
                    (let h = next_handle s
                     in (snd (alloc (dataUrlToMat e result) s))\<lparr>originalMat := Some h\<rparr>))
      in s1\<lparr>images := \<lparr>original = Some result, processed = Some result, intermediateSteps = []\<rparr>,
             transformPipeline := []\<rparr>)"

section \<open>The documented behaviour of the primitives the claims depend on\<close>

text \<open>
  What OpenCV computes is not part of the repository. For the primitives whose result a
  claim is about, the documented behaviour is written down here; the theorems below
  assume of the provider exactly these equations and nothing about the other primitives.
\<close>

text \<open>A buffer is well formed when every plane has \<open>rows\<close> rows of \<open>cols\<close> values, and
  8-bit when its depth is \<^verbatim>\<open>CV_8U\<close> and every value lies in 0..255.\<close>

definition wf_Mat :: "Mat \<Rightarrow> bool" where
  "wf_Mat m = list_all (\<lambda>pl. length pl = rows m \<and> list_all (\<lambda>r. length r = cols m) pl) (planes m)"

definition all_values :: "(int \<Rightarrow> bool) \<Rightarrow> int list list list \<Rightarrow> bool" where
  "all_values P pls = list_all (list_all (list_all P)) pls"

definition is_u8 :: "Mat \<Rightarrow> bool" where
  "is_u8 m = (depth m = CV_8U \<and> all_values (\<lambda>v. 0 \<le> v \<and> v \<le> 255) (planes m))"

definition map_values :: "(int \<Rightarrow> int) \<Rightarrow> Mat \<Rightarrow> Mat" where
  "map_values f m = m\<lparr>planes := map (map (map f)) (planes m)\<rparr>"

text \<open>\<^verbatim>\<open>mat.roi(rect)\<close>: the sub-image of the rectangle, and an exception when the
  rectangle does not lie inside the image.\<close>

definition roi :: "int \<Rightarrow> int \<Rightarrow> int \<Rightarrow> int \<Rightarrow> Mat \<Rightarrow> string + Mat" where
  "roi x y w h m =
     (if 0 \<le> x \<and> 0 \<le> w \<and> x + w \<le> int (cols m) \<and> 0 \<le> y \<and> 0 \<le> h \<and> y + h \<le> int (rows m)
      then Inr \<lparr>rows = nat h, cols = nat w, depth = depth m,
                planes = map (\<lambda>pl. map (\<lambda>r. take (nat w) (drop (nat x) r))
                                        (take (nat h) (drop (nat y) pl))) (planes m)\<rparr>
      else Inl ''roi: rectangle outside the image'')"

text \<open>\<^verbatim>\<open>THRESH_BINARY\<close>, as the component's own explanation of the operation states it:
  "if its value > threshold, set to 255 (white), else 0 (black)", with the maximum value
  the call passes in place of 255.\<close>

definition thresh_binary :: "real \<Rightarrow> real \<Rightarrow> Mat \<Rightarrow> Mat" where
  "thresh_binary t maxval m = map_values (\<lambda>v. if t < real_of_int v then \<lfloor>maxval\<rfloor> else 0) m"

text \<open>\<^verbatim>\<open>COLOR_GRAY2RGBA\<close>: the gray plane three times, and an opaque alpha plane.\<close>

definition gray2rgba :: "Mat \<Rightarrow> Mat" where
  "gray2rgba m =
     (let g = (case planes m of [] \<Rightarrow> [] | pl # _ \<Rightarrow> pl)
      in m\<lparr>planes := [g, g, g, map (map (\<lambda>_. 255)) g]\<rparr>)"

text \<open>\<^verbatim>\<open>COLOR_RGBA2GRAY\<close>, with the weights of the component's explanation of the
  operation, \<open>Y = 0.299 R + 0.587 G + 0.114 B\<close>, rounded.\<close>

definition gray_value :: "int \<Rightarrow> int \<Rightarrow> int \<Rightarrow> int" where
  "gray_value r g b = Math_round ((299 * real_of_int r + 587 * real_of_int g + 114 * real_of_int b) / 1000)"

definition rgba2gray :: "Mat \<Rightarrow> string + Mat" where
  "rgba2gray m =
     (case planes m of
        r # g # b # _ \<Rightarrow>
          Inr (m\<lparr>planes := [map (\<lambda>(rr, gr, br). map (\<lambda>(rv, gv, bv). gray_value rv gv bv)
                                                     (zip rr (zip gr br)))
                                (zip r (zip g b))]\<rparr>)
      | _ \<Rightarrow> Inl ''cvtColor: invalid number of channels'')"

text \<open>\<^verbatim>\<open>cv.split\<close>, \<^verbatim>\<open>cv.merge\<close> and \<^verbatim>\<open>cv.LUT\<close> on one channel: the planes one by one,
  the planes put together again, and each value replaced by the table entry at its
  index. The table is the single row of the 1 \<times> 256 buffer.\<close>

definition split_channels :: "Mat \<Rightarrow> Mat list" where
  "split_channels m = map (\<lambda>pl. m\<lparr>planes := [pl]\<rparr>) (planes m)"

definition merge_channels :: "Mat list \<Rightarrow> string + Mat" where
  "merge_channels chs =
     (case chs of
        [] \<Rightarrow> Inl ''merge: no channels''
      | ch # _ \<Rightarrow> Inr (ch\<lparr>planes := concat (map planes chs)\<rparr>))"

definition lut_table :: "Mat \<Rightarrow> int list" where
  "lut_table lut = (case planes lut of (row # _) # _ \<Rightarrow> row | _ \<Rightarrow> [])"

definition apply_lut :: "Mat \<Rightarrow> Mat \<Rightarrow> string + Mat" where
  "apply_lut ch lut =
     (if is_u8 ch \<and> length (lut_table lut) = 256
      then Inr (map_values (\<lambda>v. lut_table lut ! nat v) ch)
      else Inl ''LUT: unsupported input'')"

text \<open>\<^verbatim>\<open>convertTo\<close> into an 8-bit buffer: \<open>in * alpha + beta\<close>, rounded to the nearest
  integer (a tie to the even one) and saturated to 0..255.\<close>

definition cvRound :: "real \<Rightarrow> int" where
  "cvRound x =
     (let f = \<lfloor>x\<rfloor>
      in if x - real_of_int f < 1 / 2 then f
         else if 1 / 2 < x - real_of_int f then f + 1
         else if even f then f else f + 1)"

definition saturate_u8 :: "int \<Rightarrow> int" where
  "saturate_u8 v = max 0 (min 255 v)"

definition convertTo :: "real \<Rightarrow> real \<Rightarrow> Mat \<Rightarrow> Mat" where
  "convertTo alpha beta m = map_values (\<lambda>v. saturate_u8 (cvRound (real_of_int v * alpha + beta))) m"

subsection \<open>A provider for the examples\<close>

text \<open>
  The closed examples below need a provider. \<open>ref_cv\<close> answers the primitives above as
  documented; every other primitive returns its first input unchanged (or an empty
  buffer when it has none), since no example looks at what such a primitive computes.
\<close>

definition first_input :: "Mat list \<Rightarrow> string + Mat" where
  "first_input ins = (case ins of [] \<Rightarrow> Inr empty_Mat | m # _ \<Rightarrow> Inr m)"

definition ref_call :: "prim \<Rightarrow> Mat list \<Rightarrow> string + Mat" where
  "ref_call p ins =
     (case p of
        CvtColor code \<Rightarrow>
          (case ins of
             [m] \<Rightarrow> (if code = COLOR_RGBA2GRAY then rgba2gray m
                     else if code = COLOR_GRAY2RGBA then Inr (gray2rgba m)
                     else Inr m)
           | _ \<Rightarrow> Inl ''cvtColor: one input expected'')
      | Roi x y w h \<Rightarrow>
          (case ins of [m] \<Rightarrow> roi x y w h m | _ \<Rightarrow> Inl ''roi: one input expected'')
      | Threshold t maxval ty \<Rightarrow>
          (case ins of
             [m] \<Rightarrow> (if ty = THRESH_BINARY then Inr (thresh_binary t maxval m) else Inr m)
           | _ \<Rightarrow> Inl ''threshold: one input expected'')
      | ConvertTo rtype alpha beta \<Rightarrow>
          (case ins of [m] \<Rightarrow> Inr (convertTo alpha beta m) | _ \<Rightarrow> Inl ''convertTo: one input expected'')
      | LUT \<Rightarrow>
          (case ins of [ch, lut] \<Rightarrow> apply_lut ch lut | _ \<Rightarrow> Inl ''LUT: two inputs expected'')
      | Merge \<Rightarrow> merge_channels ins
      | _ \<Rightarrow> first_input ins)"

definition ref_cv :: opencv where
  "ref_cv = \<lparr>call = ref_call, split = (\<lambda>m. Inr (split_channels m))\<rparr>"

text \<open>A browser for the examples: a data URL is the list of the values of one pixel row
  per plane, and the canvas never throws.\<close>

definition ref_encode :: "Mat \<Rightarrow> string" where
  "ref_encode m = map (\<lambda>v. char_of (nat v)) (concat (concat (planes m)))"

definition ref_decode :: "string \<Rightarrow> Mat" where
  "ref_decode u =
     \<lparr>rows = 1, cols = length u div 4, depth = CV_8U,
      planes = map (\<lambda>k. [map (\<lambda>ch. int (of_char ch)) (take (length u div 4) (drop (k * (length u div 4)) u))])
                   [0..<4]\<rparr>"

definition ref_env :: env where
  "ref_env = \<lparr>cv = Some ref_cv, dataUrlToMat = ref_decode, getContext = True,
               createImageData = (\<lambda>w h. Inr ()), toDataURL = (\<lambda>w h m. Inr (ref_encode m))\<rparr>"

text \<open>A state right after start: nothing uploaded, nothing selected, an empty heap.\<close>

definition initial :: workbench where
  "initial =
     \<lparr>images = \<lparr>original = None, processed = None, intermediateSteps = []\<rparr>,
      transformPipeline = [],
      selectedCategory = [],
      selectedOperation = [],
      transformParams = Map.empty,
      originalMat = None,
      mats = (\<lambda>_. empty_Mat),
      vecs = (\<lambda>_. []),
      next_handle = 0,
      heap_log = [],
      alerts = [],
      console = [],
      mat = 0,
      matsToRelease = []\<rparr>"

section \<open>Notions used in the statements\<close>

text \<open>The colour planes of a result are all black, or all white (the alpha plane, the
  fourth one, is not looked at).\<close>

definition is_black :: "Mat \<Rightarrow> bool" where
  "is_black m = all_values (\<lambda>v. v = 0) (take 3 (planes m))"

definition is_white :: "Mat \<Rightarrow> bool" where
  "is_white m = all_values (\<lambda>v. v = 255) (take 3 (planes m))"

text \<open>The identifiers of the catalog whose branch in the executor is empty.\<close>

definition unimplemented_ids :: "string list" where
  "unimplemented_ids =
     [''hed'', ''cmyk'', ''nl_means'', ''perspective'', ''affine'', ''add_weighted'',
      ''find_contours'', ''feature_detect'']"


subsection \<open>Example inputs\<close>

text \<open>A 3 \<times> 1 RGBA image: a black, a mid-gray and a red pixel.\<close>

definition three_pixels :: Mat where
  "three_pixels = \<lparr>rows = 1, cols = 3, depth = CV_8U,
      planes = [[[0, 100, 255]], [[0, 100, 0]], [[0, 100, 0]], [[255, 255, 255]]]\<rparr>"

text \<open>Its gray values, and its gray version as an RGBA image.\<close>

definition three_gray :: Mat where
  "three_gray = \<lparr>rows = 1, cols = 3, depth = CV_8U, planes = [[[0, 100, 76]]]\<rparr>"

definition gray_three :: Mat where
  "gray_three = \<lparr>rows = 1, cols = 3, depth = CV_8U,
      planes = [[[0, 100, 76]], [[0, 100, 76]], [[0, 100, 76]], [[255, 255, 255]]]\<rparr>"

text \<open>The component with that image loaded as source buffer 0, and the same component
  inside a run, right after the source was cloned into buffer 1.\<close>

definition loaded :: workbench where
  "loaded = initial\<lparr>images := \<lparr>original = Some ''data:three_pixels'',
                                 processed = Some ''data:three_pixels'',
                                 intermediateSteps = []\<rparr>,
                     originalMat := Some 0,
                     mats := (\<lambda>_. empty_Mat)(0 := three_pixels),
                     next_handle := 1,
                     heap_log := [Alloc 0]\<rparr>"

definition running :: workbench where
  "running = loaded\<lparr>mats := (mats loaded)(1 := three_pixels), next_handle := 2,
                      heap_log := [Alloc 0, Alloc 1], mat := 1, matsToRelease := [1]\<rparr>"

text \<open>The component after the upload of a twelve-character data URL.\<close>

definition uploaded :: workbench where
  "uploaded = handleImageUpload ref_env ''AdzAd!Ad!~~~'' initial"

text \<open>The component after the user chose Gaussian Blur and moved its slider to 9.\<close>

definition tuned :: workbench where
  "tuned = slider_onValueChange ''blur'' 9
             (initial\<lparr>selectedCategory := ''Blurring'', selectedOperation := ''gaussian_blur''\<rparr>)"

text \<open>A provider whose every primitive throws.\<close>

definition failing_cv :: opencv where
  "failing_cv = \<lparr>call = (\<lambda>p ins. Inl ''provider failure''), split = (\<lambda>m. Inl ''provider failure'')\<rparr>"

text \<open>Steps as the step builder makes them (with \<open>DEFAULT_PARAMS\<close>), and steps with
  parameters of their own.\<close>

definition grayscale_step :: TransformStep where
  "grayscale_step = \<lparr>step_id = ''a1'', step_type = ''grayscale'', step_params = DEFAULT_PARAMS,
     step_name = ''Grayscale''\<rparr>"


definition sobel_step :: TransformStep where
  "sobel_step = \<lparr>step_id = ''a2'', step_type = ''sobel'', step_params = DEFAULT_PARAMS,
     step_name = ''Sobel Edge''\<rparr>"


definition contrast_step :: TransformStep where
  "contrast_step = \<lparr>step_id = ''a4'', step_type = ''contrast'', step_params = DEFAULT_PARAMS,
     step_name = ''Contrast Adjustment''\<rparr>"

definition brightness_step :: TransformStep where
  "brightness_step = \<lparr>step_id = ''a5'', step_type = ''brightness'', step_params = DEFAULT_PARAMS,
     step_name = ''Brightness Adjustment''\<rparr>"

definition gaussian_blur_step :: TransformStep where
  "gaussian_blur_step = \<lparr>step_id = ''a6'', step_type = ''gaussian_blur'', step_params = DEFAULT_PARAMS,
     step_name = ''Gaussian Blur''\<rparr>"

definition legacy_blur_step :: TransformStep where
  "legacy_blur_step = \<lparr>step_id = ''a7'', step_type = ''blur'', step_params = DEFAULT_PARAMS,
     step_name = ''Blur''\<rparr>"

definition perspective_step :: TransformStep where
  "perspective_step = \<lparr>step_id = ''a8'', step_type = ''perspective'', step_params = DEFAULT_PARAMS,
     step_name = ''Perspective Transform''\<rparr>"

definition bad_crop_step :: TransformStep where
  "bad_crop_step = \<lparr>step_id = ''b1'', step_type = ''crop'', step_params = [''cropX'' \<mapsto> Num 100],
     step_name = ''Crop''\<rparr>"

definition full_crop_step :: TransformStep where
  "full_crop_step = \<lparr>step_id = ''b2'', step_type = ''crop'',
     step_params = [''cropX'' \<mapsto> Num 0, ''cropY'' \<mapsto> Num 0,
                    ''cropWidth'' \<mapsto> Num 100, ''cropHeight'' \<mapsto> Num 100],
     step_name = ''Crop''\<rparr>"

definition thresh0_step :: TransformStep where
  "thresh0_step = \<lparr>step_id = ''b3'', step_type = ''simple_thresh'',
     step_params = [''threshold'' \<mapsto> Num 0], step_name = ''Simple Threshold''\<rparr>"

definition thresh255_step :: TransformStep where
  "thresh255_step = \<lparr>step_id = ''b4'', step_type = ''simple_thresh'',
     step_params = [''threshold'' \<mapsto> Num 255], step_name = ''Simple Threshold''\<rparr>"



text \<open>The component with a source buffer of three channels and the pipeline Sobel, and a
  provider in which \<^verbatim>\<open>convertScaleAbs\<close> throws. The helper \<^verbatim>\<open>dataUrlToMat\<close> builds
  buffers of type \<^verbatim>\<open>CV_8UC4\<close> only; the example stands for any way in which the current
  buffer comes to have another type, such as a provider that writes one into it.\<close>

definition rgb_loaded :: workbench where
  "rgb_loaded = loaded\<lparr>mats := (mats loaded)(0 := three_pixels\<lparr>planes := take 3 (planes three_pixels)\<rparr>),
                         transformPipeline := [sobel_step]\<rparr>"

definition abs_failing_cv :: opencv where
  "abs_failing_cv = ref_cv\<lparr>call := (\<lambda>p ins. if p = ConvertScaleAbs then Inl ''provider failure''
                                               else ref_call p ins)\<rparr>"

text \<open>A one-channel buffer of 100 columns holding the values 0 to 99, its part from
  column 28 on, the component with the former as current buffer, and a crop from 29
  percent on that is 72 percent wide.\<close>

definition hundred :: Mat where
  "hundred = \<lparr>rows = 1, cols = 100, depth = CV_8U, planes = [[map int [0..<100]]]\<rparr>"

definition hundred_from_28 :: Mat where
  "hundred_from_28 = \<lparr>rows = 1, cols = 72, depth = CV_8U, planes = [[map int [28..<100]]]\<rparr>"

definition wide :: workbench where
  "wide = running\<lparr>mats := (mats running)(1 := hundred)\<rparr>"

definition crop29_step :: TransformStep where
  "crop29_step = \<lparr>step_id = ''b5'', step_type = ''crop'',
     step_params = [''cropX'' \<mapsto> Num 29, ''cropWidth'' \<mapsto> Num 72], step_name = ''Crop''\<rparr>"

section \<open>Buffer accounting of the steps\<close>

lemmas prims = exec_bind_def new_Mat_def new_MatVector_def alloc_def delete_def cv_into_def
  cv_new_def cv_split_def cv_merge_def cv_on_channel_def set_mat_def push_matsToRelease_def
  console_error_def ret_def throw_def try_catch_finally_def
























subsection \<open>Logs in sequence\<close>























section \<open>Facts about the documented primitives and the reference provider\<close>


subsection \<open>Doubles\<close>

lemma pow2_powr: "pow2 k = 2 powr (real_of_int k)"
  by (auto simp: pow2_def powr_real_of_int field_simps)

lemma pow2_pos: "0 < pow2 k"
  by (simp add: pow2_powr)

lemma floor_log2:
  assumes "pow2 k \<le> x" and "x < pow2 (k + 1)"
  shows "\<lfloor>log 2 x\<rfloor> = k"
proof -
  have x: "0 < x" using assms(1) pow2_pos[of k] by linarith
  show ?thesis using assms floor_log_eq_powr_iff[OF x, of 2 k] by (simp add: pow2_powr)
qed

lemma round_ties_even_int: "round_ties_even (real_of_int z) = z"
  by (simp add: round_ties_even_def)

text \<open>The rounding of a number whose binary exponent is \<open>k\<close>.\<close>

lemma binary64_at:
  assumes "pow2 k \<le> \<bar>x\<bar>" and "\<bar>x\<bar> < pow2 (k + 1)" and "- 1022 \<le> k"
  shows "binary64 x = real_of_int (round_ties_even (x / pow2 (k - 52))) * pow2 (k - 52)"
proof -
  have "x \<noteq> 0" using assms(1) pow2_pos[of k] by auto
  moreover have "\<lfloor>log 2 \<bar>x\<bar>\<rfloor> = k" using assms(1,2) by (rule floor_log2)
  ultimately show ?thesis using assms(3) by (simp add: binary64_def Let_def)
qed

lemma binary64_fixed:
  assumes "pow2 k \<le> \<bar>x\<bar>" and "\<bar>x\<bar> < pow2 (k + 1)" and "- 1022 \<le> k"
    and "x / pow2 (k - 52) = real_of_int z"
  shows "binary64 x = x"
proof -
  have "binary64 x = real_of_int (round_ties_even (x / pow2 (k - 52))) * pow2 (k - 52)"
    using assms(1-3) by (rule binary64_at)
  also have "\<dots> = x / pow2 (k - 52) * pow2 (k - 52)"
    unfolding assms(4) round_ties_even_int ..
  also have "\<dots> = x" using pow2_pos[of "k - 52"] by simp
  finally show ?thesis .
qed

text \<open>Every integer below \<open>2 ^ 53\<close> in absolute value is a double.\<close>

lemma binary64_int:
  assumes "\<bar>n\<bar> < 2 ^ 53"
  shows "binary64 (real_of_int n) = real_of_int n"
proof (cases "n = 0")
  case True
  then show ?thesis by (simp add: binary64_def)
next
  case False
  define x where "x = \<bar>real_of_int n\<bar>"
  have x1: "1 \<le> x" using False by (simp add: x_def)
  define k where "k = \<lfloor>log 2 x\<rfloor>"
  have k0: "0 \<le> k" using x1 by (simp add: k_def)
  have "x < 2 ^ 53"
    using assms unfolding x_def by (metis of_int_abs of_int_less_numeral_power_cancel_iff)
  then have "log 2 x < 53" using x1 by (simp add: log_less_iff)
  then have k52: "k \<le> 52" unfolding k_def by linarith
  define j where "j = nat (52 - k)"
  have u: "pow2 (k - 52) = 1 / 2 ^ j"
    using k52 by (auto simp: pow2_def j_def)
  have q: "real_of_int n / pow2 (k - 52) = real_of_int (n * 2 ^ j)"
    by (simp add: u)
  have x0: "0 < x" using x1 by simp
  have "pow2 k \<le> x \<and> x < pow2 (k + 1)"
    using floor_log_eq_powr_iff[OF x0, of 2 k] by (simp add: pow2_powr k_def)
  then show ?thesis
    using k0 by (intro binary64_fixed[where k = k and z = "n * 2 ^ j"]) (simp_all add: x_def q)
qed

lemma binary64_nat: "n < 2 ^ 53 \<Longrightarrow> binary64 (real n) = real n"
  using binary64_int[of "int n"] by simp

lemma js_div_100_100: "js_div 100 100 = 1"
  using binary64_int[of 100] binary64_int[of 1] by (simp add: js_div_def)

lemma js_div_0_100: "js_div 0 100 = 0"
  by (simp add: js_div_def binary64_def)

lemma js_mul_0: "js_mul 0 x = 0"
  by (simp add: js_mul_def binary64_def)

lemma js_mul_1: "n < 2 ^ 53 \<Longrightarrow> js_mul 1 (real n) = real n"
  using binary64_int[of 1] binary64_nat[of n] by (simp add: js_mul_def)

lemma js_mul_1_1: "js_mul 1 1 = 1"
  using js_mul_1[of 1] by simp

lemma js_mul_1_numeral: "(numeral w :: nat) < 2 ^ 53 \<Longrightarrow> js_mul 1 (numeral w) = numeral w"
  using js_mul_1[of "numeral w"] by simp

lemmas js_exact = js_div_100_100 js_div_0_100 js_mul_0 js_mul_1_1 js_mul_1_numeral

text \<open>The double nearest to 0.29 lies below 0.29, and so does its product with 100: 29
  percent of 100 columns is the pixel 28.\<close>

lemma binary64_29_percent: "binary64 (29 / 100) = 5224175567749775 / 2 ^ 54"
proof -
  have "binary64 (29 / 100)
          = real_of_int (round_ties_even ((29 / 100) / pow2 (- 2 - 52))) * pow2 (- 2 - 52)"
    by (rule binary64_at) (simp_all add: pow2_def)
  also have "\<dots> = 5224175567749775 / 2 ^ 54"
    by (simp add: pow2_def round_ties_even_def Let_def)
  finally show ?thesis .
qed

lemma js_div_29_100: "js_div 29 100 = 5224175567749775 / 2 ^ 54"
  using binary64_int[of 29] binary64_int[of 100] binary64_29_percent by (simp add: js_div_def)

lemma js_mul_29_percent_100: "js_mul (5224175567749775 / 2 ^ 54) 100 = 8162774324609023 / 2 ^ 48"
proof -
  have a: "binary64 (5224175567749775 / 2 ^ 54) = 5224175567749775 / 2 ^ 54"
    by (rule binary64_fixed[where k = "- 2" and z = 5224175567749775]) (simp_all add: pow2_def)
  have "binary64 (5224175567749775 / 2 ^ 54 * 100)
          = real_of_int (round_ties_even (5224175567749775 / 2 ^ 54 * 100 / pow2 (4 - 52))) * pow2 (4 - 52)"
    by (rule binary64_at) (simp_all add: pow2_def)
  also have "\<dots> = 8162774324609023 / 2 ^ 48"
    by (simp add: pow2_def round_ties_even_def Let_def)
  finally have m: "binary64 (5224175567749775 / 2 ^ 54 * 100) = 8162774324609023 / 2 ^ 48" .
  have h: "binary64 100 = 100" using binary64_int[of 100] by simp
  show ?thesis unfolding js_mul_def a h by (rule m)
qed

lemma floor_29_percent_of_100: "Math_floor (js_mul (js_div 29 100) 100) = 28"
  unfolding js_div_29_100 js_mul_29_percent_100 Math_floor_def by simp

text \<open>The double nearest to 0.72 lies above 0.72, and its product with 100 rounds to
  72.\<close>

lemma binary64_72_percent: "binary64 (72 / 100) = 6485183463413514 / 2 ^ 53"
proof -
  have "binary64 (72 / 100)
          = real_of_int (round_ties_even ((72 / 100) / pow2 (- 1 - 52))) * pow2 (- 1 - 52)"
    by (rule binary64_at) (simp_all add: pow2_def)
  also have "\<dots> = 6485183463413514 / 2 ^ 53"
    by (simp add: pow2_def round_ties_even_def Let_def)
  finally show ?thesis .
qed

lemma js_div_72_100: "js_div 72 100 = 6485183463413514 / 2 ^ 53"
  using binary64_int[of 72] binary64_int[of 100] binary64_72_percent by (simp add: js_div_def)

lemma js_mul_72_percent_100: "js_mul (6485183463413514 / 2 ^ 53) 100 = 72"
proof -
  have a: "binary64 (6485183463413514 / 2 ^ 53) = 6485183463413514 / 2 ^ 53"
    by (rule binary64_fixed[where k = "- 1" and z = 6485183463413514]) (simp_all add: pow2_def)
  have "binary64 (6485183463413514 / 2 ^ 53 * 100)
          = real_of_int (round_ties_even (6485183463413514 / 2 ^ 53 * 100 / pow2 (6 - 52))) * pow2 (6 - 52)"
    by (rule binary64_at) (simp_all add: pow2_def)
  also have "\<dots> = 72"
    by (simp add: pow2_def round_ties_even_def Let_def)
  finally have m: "binary64 (6485183463413514 / 2 ^ 53 * 100) = 72" .
  have h: "binary64 100 = 100" using binary64_int[of 100] by simp
  show ?thesis unfolding js_mul_def a h by (rule m)
qed

lemma floor_72_percent_of_100: "Math_floor (js_mul (js_div 72 100) 100) = 72"
  unfolding js_div_72_100 js_mul_72_percent_100 Math_floor_def by simp

subsection \<open>Crop and threshold\<close>

lemma crop_rect_bounds:
  "crop_rect p m = (x, y, w, h) \<Longrightarrow> 0 \<le> x \<and> 0 \<le> y \<and> 1 \<le> w \<and> 1 \<le> h"
  by (auto simp: crop_rect_def Let_def)

lemma roi_full:
  assumes "wf_Mat m"
  shows "roi 0 0 (int (cols m)) (int (rows m)) m = Inr m"
proof -
  have "map (\<lambda>pl. map (\<lambda>r. take (cols m) r) (take (rows m) pl)) (planes m) = planes m"
    using assms by (intro map_idI) (auto simp: wf_Mat_def list_all_iff intro!: map_idI)
  then show ?thesis by (simp add: roi_def)
qed

lemma crop_rect_full:
  assumes "num_param p ''cropX'' = Some 0" "num_param p ''cropY'' = Some 0"
    "num_param p ''cropWidth'' = Some 100" "num_param p ''cropHeight'' = Some 100"
    "0 < rows m" "0 < cols m" "rows m < 2 ^ 31" "cols m < 2 ^ 31"
  shows "crop_rect p m = (0, 0, int (cols m), int (rows m))"
proof -
  have "rows m < 2 ^ 53" "cols m < 2 ^ 53" using assms(7,8) by simp_all
  then have "js_mul 1 (real (rows m)) = real (rows m)" "js_mul 1 (real (cols m)) = real (cols m)"
    by (simp_all add: js_mul_1)
  then show ?thesis
    using assms(1-6)
    by (simp add: crop_rect_def nullish_def Math_floor_def Let_def js_div_100_100 js_div_0_100 js_mul_0)
qed

lemma op_crop_result:
  assumes "call c (Roi x y w h) [mats s (mat s)] = r"
    and "crop_rect p (mats s (mat s)) = (x, y, w, h)"
  shows "case r of
           Inl msg \<Rightarrow> op_crop c p s = (Throw msg, s)
         | Inr m' \<Rightarrow> fst (op_crop c p s) = Ok () \<and>
                     mats (snd (op_crop c p s)) (mat (snd (op_crop c p s))) = m'"
  using assms by (auto simp: op_crop_def prims Let_def split: sum.splits)

lemma op_thresh_result:
  assumes "mat s < next_handle s"
    and "call c (CvtColor COLOR_RGBA2GRAY) [mats s (mat s)] = Inr g"
    and "call c th [g] = Inr b"
    and "call c (CvtColor COLOR_GRAY2RGBA) [b] = Inr m'"
  shows "fst (op_thresh c th s) = Ok () \<and> mat (snd (op_thresh c th s)) = mat s \<and>
         mats (snd (op_thresh c th s)) (mat s) = m'"
  using assms by (auto simp: op_thresh_def prims Let_def)

lemma gray2rgba_black:
  "all_values (\<lambda>v. v = 0) (planes b) \<Longrightarrow> is_black (gray2rgba b)"
  by (cases "planes b") (auto simp: is_black_def gray2rgba_def all_values_def)

lemma thresh_255_black:
  assumes "is_u8 g"
  shows "all_values (\<lambda>v. v = 0) (planes (thresh_binary 255 maxval g))"
  using assms
  by (fastforce simp: is_u8_def thresh_binary_def map_values_def all_values_def list_all_iff)

subsection \<open>The two kernel sizes of a blur\<close>

lemma or_one_le: "0 \<le> k \<Longrightarrow> k OR 1 \<le> k + (1::int)"
proof -
  assume "0 \<le> k"
  then have "0 \<le> k AND 1" by simp
  moreover have "(k AND 1) + (k OR 1) = k + 1" by (rule plus_and_or)
  ultimately show ?thesis by linarith
qed

text \<open>For every positive integer kernel-size parameter the executor's kernel size
  \<^verbatim>\<open>k|1\<close> is smaller than the size \<^verbatim>\<open>k * 2 + 1\<close> the synthesizer writes in its case
  \<^verbatim>\<open>blur\<close>.\<close>

lemma blur_kernel_formulas_differ:
  assumes "0 < k" "k < 2 ^ 31" "num_param p ''blur'' = Some (real_of_int k)"
  shows "real_of_int (blur_ksize p) < py_blur_ksize p"
proof -
  have t: "ToInt32 (real_of_int k) = k"
    using assms(1,2) by (simp add: ToInt32_def js_trunc_def Let_def)
  have "blur_ksize p = k OR 1" using assms by (simp add: blur_ksize_def js_or_def t)
  then have "blur_ksize p \<le> k + 1" using or_one_le[of k] assms(1) by simp
  moreover have "py_blur_ksize p = real_of_int k * 2 + 1"
    using assms by (simp add: py_blur_ksize_def js_or_def)
  ultimately show ?thesis using assms(1) by simp
qed

subsection \<open>The gamma table and the channel loop\<close>












subsection \<open>The reference provider and the example states\<close>




lemma ref_cv_roi: "call ref_cv (Roi x y w h) [m] = roi x y w h m"
  by (simp add: ref_cv_def ref_call_def)

lemma ref_cv_convertTo: "call ref_cv (ConvertTo r a b) [m] = Inr (convertTo a b m)"
  by (simp add: ref_cv_def ref_call_def)

lemma ref_cv_threshold: "call ref_cv (Threshold t v THRESH_BINARY) [m] = Inr (thresh_binary t v m)"
  by (simp add: ref_cv_def ref_call_def)

lemma ref_cv_gray2rgba: "call ref_cv (CvtColor COLOR_GRAY2RGBA) [m] = Inr (gray2rgba m)"
  by (simp add: ref_cv_def ref_call_def)

lemma ref_cv_gray: "call ref_cv (CvtColor COLOR_RGBA2GRAY) [three_pixels] = Inr three_gray"
  by (simp add: ref_cv_def ref_call_def rgba2gray_def three_pixels_def three_gray_def
      gray_value_def Math_round_def)

lemma running_mat: "mats running (mat running) = three_pixels"
  by (simp add: running_def loaded_def)

lemma running_fresh: "mat running < next_handle running"
  by (simp add: running_def loaded_def)


lemma three_pixels_wf: "wf_Mat three_pixels"
  by (simp add: wf_Mat_def three_pixels_def)

lemmas eval_defs = applyTransformPipeline_def run_step_def prims Let_def ref_env_def ref_cv_def
  ref_call_def first_input_def loaded_def initial_def run_log_def three_pixels_def
  rgba2gray_def gray2rgba_def gray_value_def Math_round_def Math_floor_def num_param_def
  nullish_def js_or_def CV_8U_def matToDataUrl_def mat_type_def CV_8UC4_def

text \<open>Five buffers of a run are live together when a Sobel step fails with its three
  temporaries allocated and the encoder converts a current buffer of three channels.\<close>

lemma five_buffers_reached:
  "run_log rgb_loaded (applyTransformPipeline (ref_env\<lparr>cv := Some abs_failing_cv\<rparr>) rgb_loaded)
     = [Alloc 1, Alloc 2, Alloc 3, Alloc 4, Alloc 5, Delete 5, Delete 1] \<and>
   peak_from [] (run_log rgb_loaded
                   (applyTransformPipeline (ref_env\<lparr>cv := Some abs_failing_cv\<rparr>) rgb_loaded)) = 5"
  by (simp add: eval_defs rgb_loaded_def abs_failing_cv_def sobel_step_def op_sobel_def)

section \<open>The claims\<close>

subsection \<open>C1: a failing step\<close>

text \<open>
  Claim C1 says that a failing step aborts the loop, that every buffer of the run is
  released, that the failure names the step, and that no result is published. The
  handler clears the processed image and leaves the loop, but the statements after the
  loop run all the same: the current buffer is encoded and stored as the processed image.
  On the source image \<open>three_pixels\<close> with the pipeline Grayscale, Crop (with
  \<^verbatim>\<open>cropX = 100\<close>, a rectangle outside the image), the crop throws, the alert names
  "Crop" and the console names "crop", and the processed image is the encoding of the
  gray image, the partial result. With a provider whose primitives all throw and the
  pipeline Grayscale, the processed image is the encoding of the unprocessed clone, and
  the temporary buffer 2 of the step is never released.
\<close>

theorem failed_step_publishes_partial_result:
  "processed (images (applyTransformPipeline ref_env
                        (loaded\<lparr>transformPipeline := [grayscale_step, bad_crop_step]\<rparr>)))
     = Some (ref_encode gray_three) \<and>
   alerts (applyTransformPipeline ref_env
             (loaded\<lparr>transformPipeline := [grayscale_step, bad_crop_step]\<rparr>))
     = [''Error in operation '' @ quoted ''Crop'' @ '': roi: rectangle outside the image''] \<and>
   console (applyTransformPipeline ref_env
              (loaded\<lparr>transformPipeline := [grayscale_step, bad_crop_step]\<rparr>))
     = [''Error in operation '' @ quoted ''crop'' @ '': roi: rectangle outside the image''] \<and>
   processed (images (applyTransformPipeline (ref_env\<lparr>cv := Some failing_cv\<rparr>)
                        (loaded\<lparr>transformPipeline := [grayscale_step]\<rparr>)))
     = Some (ref_encode three_pixels) \<and>
   run_log (loaded\<lparr>transformPipeline := [grayscale_step]\<rparr>)
           (applyTransformPipeline (ref_env\<lparr>cv := Some failing_cv\<rparr>)
                                   (loaded\<lparr>transformPipeline := [grayscale_step]\<rparr>))
     = [Alloc 1, Alloc 2, Delete 1]"
  by (simp add: eval_defs grayscale_step_def bad_crop_step_def op_grayscale_def op_crop_def
      crop_rect_def js_exact roi_def gray_three_def failing_cv_def)

subsection \<open>C2: the buffers of a run\<close>




subsection \<open>C3: the kernel size in the exported script\<close>

text \<open>
  Claim C3 says that the synthesizer writes the numbers the executor applies, in
  particular the kernel size of a blur. For the step Gaussian Blur as the step builder
  makes it (\<^verbatim>\<open>blur = 5\<close>) the executor calls \<^verbatim>\<open>GaussianBlur\<close> with the kernel size 5, and
  the only number in the generated script is the step index 1: the \<^verbatim>\<open>switch\<close> of the
  synthesizer has no case for \<^verbatim>\<open>gaussian_blur\<close>. Its case \<^verbatim>\<open>blur\<close> writes the kernel size
  11 for the same parameter, for a step the executor passes over (and for no positive
  kernel-size parameter do the two formulas agree, \<open>blur_kernel_formulas_differ\<close>). For a
  brightness step the executor applies alpha 1.2 and beta 25.5, while the script has
  alpha 1.1.
\<close>

theorem blur_kernel_export_divergence:
  "blur_ksize (step_params gaussian_blur_step) = 5 \<and>
   run_step c gaussian_blur_step s =
     exec_bind new_Mat (\<lambda>out.
       seqs [cv_into c (GaussianBlur 5 5 0) [mat s] out, delete (mat s), set_mat out,
             push_matsToRelease out]) s \<and>
   literals (generatePythonCode [gaussian_blur_step]) = [1] \<and>
   literals (generatePythonCode [legacy_blur_step]) = [1, 11, 11] \<and>
   run_step c legacy_blur_step s = (Ok (), s) \<and>
   run_step c brightness_step s =
     cv_into c (ConvertTo (- 1) (120 / 100) (255 / 10)) [mat s] (mat s) s \<and>
   literals (generatePythonCode [brightness_step]) = [1, 110 / 100]"
proof -
  have k: "blur_ksize DEFAULT_PARAMS = 5"
    by (simp add: blur_ksize_def DEFAULT_PARAMS_def num_param_def js_or_def ToInt32_def js_trunc_def)
  have a: "run_step c gaussian_blur_step s =
     exec_bind new_Mat (\<lambda>out.
       seqs [cv_into c (GaussianBlur 5 5 0) [mat s] out, delete (mat s), set_mat out,
             push_matsToRelease out]) s"
    by (simp add: run_step_def gaussian_blur_step_def op_gaussian_blur_def k)
  have b: "literals (generatePythonCode [gaussian_blur_step]) = [1]"
    by (simp add: generatePythonCode_def emit_step_def step_comment_def step_code_def literals_def
        gaussian_blur_step_def)
  have c: "literals (generatePythonCode [legacy_blur_step]) = [1, 11, 11]"
    by (simp add: generatePythonCode_def emit_step_def step_comment_def step_code_def literals_def
        legacy_blur_step_def py_blur_ksize_def DEFAULT_PARAMS_def num_param_def js_or_def)
  have d: "run_step c legacy_blur_step s = (Ok (), s)"
    by (simp add: run_step_def legacy_blur_step_def ret_def)
  have e: "run_step c brightness_step s =
     cv_into c (ConvertTo (- 1) (120 / 100) (255 / 10)) [mat s] (mat s) s"
    by (simp add: run_step_def brightness_step_def op_contrast_brightness_def contrast_alpha_def
        brightness_beta_def DEFAULT_PARAMS_def num_param_def nullish_def)
  have f: "literals (generatePythonCode [brightness_step]) = [1, 110 / 100]"
    by (simp add: generatePythonCode_def emit_step_def step_comment_def step_code_def literals_def
        brightness_step_def DEFAULT_PARAMS_def num_param_def js_or_def)
  show ?thesis using k a b c d e f by (simp add: gaussian_blur_step_def)
qed

subsection \<open>C4: operations without a transform\<close>

text \<open>
  Claim C4, as amended: a step whose identifier is in the catalog but whose branch in the
  executor is empty (\<open>unimplemented_ids\<close>) raises no failure and leaves the whole state,
  the current buffer included, as it was; in the synthesizer's output the step
  contributes its comment line "# Step n: name" and nothing else.
\<close>

theorem unimplemented_step_identity_and_comment:
  "step_type step \<in> set unimplemented_ids \<Longrightarrow>
     step_type step \<in> set catalog_ids \<and>
     run_step c step s = (Ok (), s) \<and>
     emit_step index step = step_comment index step"
proof -
  assume a: "step_type step \<in> set unimplemented_ids"
  have "set unimplemented_ids \<subseteq> set catalog_ids"
    by (simp add: unimplemented_ids_def catalog_ids_def TRANSFORM_CATEGORIES_def)
  moreover have "run_step c step = ret ()"
    using a by (auto simp: unimplemented_ids_def run_step_def)
  moreover have "step_code step = []"
    using a by (auto simp: unimplemented_ids_def step_code_def)
  ultimately show ?thesis using a by (auto simp: ret_def emit_step_def)
qed

text \<open>Witness: the step Perspective Transform.\<close>

theorem unimplemented_step_identity_and_comment_witness:
  "step_type perspective_step \<in> set unimplemented_ids \<and>
   step_type perspective_step \<in> set catalog_ids \<and>
   run_step ref_cv perspective_step running = (Ok (), running) \<and>
   emit_step 0 perspective_step =
     [Txt (nl @ ''# Step ''), Lit 1, Txt ('': Perspective Transform'' @ nl)]"
proof -
  have a: "step_type perspective_step \<in> set unimplemented_ids"
    by (simp add: perspective_step_def unimplemented_ids_def)
  from unimplemented_step_identity_and_comment[OF a, of ref_cv running 0] a
  show ?thesis by (simp add: step_comment_def perspective_step_def)
qed

text \<open>Counterexample to C4 as stated: the step Perspective Transform does contribute text
  to the synthesizer's output.\<close>

theorem unimplemented_step_text_counterexample:
  "emit_step 0 perspective_step =
     [Txt (nl @ ''# Step ''), Lit 1, Txt ('': Perspective Transform'' @ nl)] \<and>
   emit_step 0 perspective_step \<noteq> []"
  by (simp add: emit_step_def step_comment_def step_code_def perspective_step_def)

subsection \<open>C5: brightness and contrast\<close>

text \<open>
  Claim C5: a brightness step and a contrast step both run the one call
  \<^verbatim>\<open>mat.convertTo(mat, -1, alpha, beta)\<close> on the current buffer, in place, with
  \<open>alpha = contrast / 100\<close> and \<open>beta = (brightness - 100) * 2.55\<close>, where both parameters
  are read from the step (each is 100 when the step does not have it), whichever of the
  two step types it is. With a provider that converts as documented, the step succeeds,
  allocates and releases nothing, and every value \<open>in\<close> of the current buffer becomes
  \<open>in * alpha + beta\<close>, rounded and saturated to 8 bits.
\<close>

theorem contrast_brightness_linear_transform:
  assumes "step_type step = ''contrast'' \<or> step_type step = ''brightness''"
  shows "run_step c step s =
     cv_into c (ConvertTo (- 1)
                  (nullish (num_param (step_params step) ''contrast'') 100 / 100)
                  ((nullish (num_param (step_params step) ''brightness'') 100 - 100) * 2.55))
       [mat s] (mat s) s \<and>
   ((\<forall>r a b m. call c (ConvertTo r a b) [m] = Inr (convertTo a b m)) \<longrightarrow>
      fst (run_step c step s) = Ok () \<and>
      run_log s (snd (run_step c step s)) = [] \<and>
      mats (snd (run_step c step s)) (mat s) =
        convertTo (nullish (num_param (step_params step) ''contrast'') 100 / 100)
                  ((nullish (num_param (step_params step) ''brightness'') 100 - 100) * 2.55)
                  (mats s (mat s)))"
proof -
  have rs: "run_step c step s =
     cv_into c (ConvertTo (- 1)
                  (nullish (num_param (step_params step) ''contrast'') 100 / 100)
                  ((nullish (num_param (step_params step) ''brightness'') 100 - 100) * 2.55))
       [mat s] (mat s) s"
    using assms
    by (auto simp: run_step_def op_contrast_brightness_def contrast_alpha_def brightness_beta_def)
  show ?thesis unfolding rs by (simp add: cv_into_def run_log_def)
qed

text \<open>Witness: a contrast step with \<open>contrast = 120\<close> and \<open>brightness = 110\<close>, so alpha is
  1.2 and beta is 25.5; with the reference provider the value 0 becomes 26 and the value
  100 becomes 146.\<close>

theorem contrast_brightness_linear_transform_witness:
  "(step_type contrast_step = ''contrast'' \<or> step_type contrast_step = ''brightness'') \<and>
   nullish (num_param (step_params contrast_step) ''contrast'') 100 / 100 = 12 / 10 \<and>
   (nullish (num_param (step_params contrast_step) ''brightness'') 100 - 100) * 2.55 = 255 / 10 \<and>
   fst (run_step ref_cv contrast_step running) = Ok () \<and>
   planes (mats (snd (run_step ref_cv contrast_step running)) (mat running)) =
     [[[26, 146, 255]], [[26, 146, 26]], [[26, 146, 26]], [[255, 255, 255]]]"
proof -
  have a: "step_type contrast_step = ''contrast'' \<or> step_type contrast_step = ''brightness''"
    by (simp add: contrast_step_def)
  have al: "nullish (num_param (step_params contrast_step) ''contrast'') 100 / 100 = 12 / 10"
    and be: "(nullish (num_param (step_params contrast_step) ''brightness'') 100 - 100) * 2.55 = 255 / 10"
    by (simp_all add: contrast_step_def DEFAULT_PARAMS_def num_param_def nullish_def)
  have cf: "\<forall>r a b m. call ref_cv (ConvertTo r a b) [m] = Inr (convertTo a b m)"
    by (simp add: ref_cv_convertTo)
  have v: "planes (convertTo (12 / 10) (255 / 10) three_pixels) =
     [[[26, 146, 255]], [[26, 146, 26]], [[26, 146, 26]], [[255, 255, 255]]]"
    by (simp add: three_pixels_def convertTo_def map_values_def cvRound_def saturate_u8_def)
  from contrast_brightness_linear_transform[OF a, of ref_cv running] cf
  have "fst (run_step ref_cv contrast_step running) = Ok ()"
    "mats (snd (run_step ref_cv contrast_step running)) (mat running) =
        convertTo (12 / 10) (255 / 10) (mats running (mat running))"
    unfolding al be by blast+
  then show ?thesis using a al be v unfolding running_mat by simp
qed

subsection \<open>C6: the simple threshold\<close>

text \<open>
  Claim C6, as amended: let \<open>g\<close> be the gray image the provider derives from the current
  buffer. A simple-threshold step succeeds and writes its result into the current
  buffer; with the threshold parameter 255 and an 8-bit \<open>g\<close> the result is all black;
  and with a threshold parameter \<open>t\<close> other than 0 the result is white exactly at the
  pixels whose gray value is greater than \<open>t\<close> and black at the others. The provider is
  assumed to threshold and to expand gray to RGBA as documented, and the fresh handle to
  differ from the current one.
\<close>

theorem simple_thresh_binary:
  assumes "step_type step = ''simple_thresh''"
    and "mat s < next_handle s"
    and "call c (CvtColor COLOR_RGBA2GRAY) [mats s (mat s)] = Inr g"
    and "\<And>t v m. call c (Threshold t v THRESH_BINARY) [m] = Inr (thresh_binary t v m)"
    and "\<And>m. call c (CvtColor COLOR_GRAY2RGBA) [m] = Inr (gray2rgba m)"
  shows "fst (run_step c step s) = Ok () \<and>
         mat (snd (run_step c step s)) = mat s \<and>
         (num_param (step_params step) ''threshold'' = Some 255 \<and> is_u8 g \<longrightarrow>
            is_black (mats (snd (run_step c step s)) (mat s))) \<and>
         (\<forall>t. num_param (step_params step) ''threshold'' = Some t \<and> t \<noteq> 0 \<longrightarrow>
            mats (snd (run_step c step s)) (mat s) =
              gray2rgba (map_values (\<lambda>v. if t < real_of_int v then 255 else 0) g))"
proof -
  let ?T = "js_or (num_param (step_params step) ''threshold'') 128"
  have rs: "run_step c step s = op_thresh c (Threshold ?T 255 THRESH_BINARY) s"
    using assms(1) by (simp add: run_step_def simple_thresh_prim_def)
  from op_thresh_result[OF assms(2) assms(3) assms(4) assms(5)]
  have res: "fst (run_step c step s) = Ok ()" "mat (snd (run_step c step s)) = mat s"
    "mats (snd (run_step c step s)) (mat s) = gray2rgba (thresh_binary ?T 255 g)"
    unfolding rs by blast+
  have black: "is_black (mats (snd (run_step c step s)) (mat s))"
    if "num_param (step_params step) ''threshold'' = Some 255" "is_u8 g"
    using that res(3) by (simp add: js_or_def gray2rgba_black thresh_255_black)
  have white: "mats (snd (run_step c step s)) (mat s) =
              gray2rgba (map_values (\<lambda>v. if t < real_of_int v then 255 else 0) g)"
    if "num_param (step_params step) ''threshold'' = Some t" "t \<noteq> 0" for t
    using that res(3) by (simp add: js_or_def thresh_binary_def cong: if_cong)
  show ?thesis using res(1,2) black white by blast
qed

text \<open>Witness: the threshold 255 on \<open>three_pixels\<close>, whose gray values are 0, 100 and 76.\<close>

theorem simple_thresh_binary_witness:
  "step_type thresh255_step = ''simple_thresh'' \<and> mat running < next_handle running \<and>
   call ref_cv (CvtColor COLOR_RGBA2GRAY) [mats running (mat running)] = Inr three_gray \<and>
   num_param (step_params thresh255_step) ''threshold'' = Some 255 \<and> is_u8 three_gray \<and>
   fst (run_step ref_cv thresh255_step running) = Ok () \<and>
   is_black (mats (snd (run_step ref_cv thresh255_step running)) (mat running))"
proof -
  have a: "step_type thresh255_step = ''simple_thresh''" by (simp add: thresh255_step_def)
  have b: "mat running < next_handle running" by (rule running_fresh)
  have c: "call ref_cv (CvtColor COLOR_RGBA2GRAY) [mats running (mat running)] = Inr three_gray"
    unfolding running_mat by (rule ref_cv_gray)
  have f: "num_param (step_params thresh255_step) ''threshold'' = Some 255"
    by (simp add: thresh255_step_def num_param_def)
  have g: "is_u8 three_gray" by (simp add: is_u8_def three_gray_def all_values_def)
  show ?thesis
    using simple_thresh_binary[OF a b c ref_cv_threshold ref_cv_gray2rgba] a b c f g by blast
qed

text \<open>Counterexample to C6 as stated: with the threshold parameter 0 the result on
  \<open>three_pixels\<close> is not all white. The black pixel has the gray value 0, which is not
  greater than any threshold that is not negative; and the executor passes 128 to the
  provider, since \<^verbatim>\<open>step.params.threshold || 128\<close> replaces a 0.\<close>

theorem thresh_zero_counterexample:
  "planes (mats (snd (run_step ref_cv thresh0_step running))
                (mat (snd (run_step ref_cv thresh0_step running))))
     = [[[0, 0, 0]], [[0, 0, 0]], [[0, 0, 0]], [[255, 255, 255]]] \<and>
   \<not> is_white (mats (snd (run_step ref_cv thresh0_step running))
                    (mat (snd (run_step ref_cv thresh0_step running))))"
  by (simp add: run_step_def prims Let_def ref_cv_def ref_call_def running_def loaded_def initial_def
      thresh0_step_def op_thresh_def simple_thresh_prim_def rgba2gray_def gray2rgba_def
      three_pixels_def gray_value_def Math_round_def thresh_binary_def map_values_def js_or_def
      num_param_def is_white_def all_values_def)

subsection \<open>C7: crop\<close>

text \<open>
  Claim C7: for a crop step the rectangle passed to \<^verbatim>\<open>mat.roi\<close> is the floor of each
  percentage of the current width or height, with \<open>x\<close> and \<open>y\<close> at least 0 and \<open>w\<close> and
  \<open>h\<close> at least 1, and the new current buffer is the sub-image of that rectangle (or the
  step throws when the rectangle lies outside the image). The percentage is computed as
  the source computes it, by a division of doubles and a multiplication of doubles: 29
  percent of 100 columns is the pixel 28 (lemma \<open>floor_29_percent_of_100\<close>), so that the
  crop from 29 percent on that is 72 percent wide lies inside the image. With X = 0,
  Y = 0, Width = 100 and Height = 100 on a well-formed buffer that is not empty, whose
  sizes are C integers, the step succeeds and the new current buffer has the size and the
  content of the old one. The provider is assumed to extract sub-images as documented.
\<close>

theorem crop_percent_rectangle:
  assumes "step_type step = ''crop''"
    and "\<And>x y w h m. call c (Roi x y w h) [m] = roi x y w h m"
  shows "(\<forall>x y w h. crop_rect (step_params step) (mats s (mat s)) = (x, y, w, h) \<longrightarrow>
            x = max 0 \<lfloor>js_mul (js_div (nullish (num_param (step_params step) ''cropX'') 0) 100)
                              (real (cols (mats s (mat s))))\<rfloor> \<and>
            y = max 0 \<lfloor>js_mul (js_div (nullish (num_param (step_params step) ''cropY'') 0) 100)
                              (real (rows (mats s (mat s))))\<rfloor> \<and>
            w = max 1 \<lfloor>js_mul (js_div (nullish (num_param (step_params step) ''cropWidth'') 100) 100)
                              (real (cols (mats s (mat s))))\<rfloor> \<and>
            h = max 1 \<lfloor>js_mul (js_div (nullish (num_param (step_params step) ''cropHeight'') 100) 100)
                              (real (rows (mats s (mat s))))\<rfloor> \<and>
            0 \<le> x \<and> 0 \<le> y \<and> 1 \<le> w \<and> 1 \<le> h \<and>
            (case roi x y w h (mats s (mat s)) of
               Inl msg \<Rightarrow> run_step c step s = (Throw msg, s)
             | Inr m' \<Rightarrow> fst (run_step c step s) = Ok () \<and>
                         mats (snd (run_step c step s)) (mat (snd (run_step c step s))) = m'))
       \<and> (num_param (step_params step) ''cropX'' = Some 0 \<and>
          num_param (step_params step) ''cropY'' = Some 0 \<and>
          num_param (step_params step) ''cropWidth'' = Some 100 \<and>
          num_param (step_params step) ''cropHeight'' = Some 100 \<and>
          wf_Mat (mats s (mat s)) \<and>
          0 < rows (mats s (mat s)) \<and> rows (mats s (mat s)) < 2 ^ 31 \<and>
          0 < cols (mats s (mat s)) \<and> cols (mats s (mat s)) < 2 ^ 31 \<longrightarrow>
          fst (run_step c step s) = Ok () \<and>
          mats (snd (run_step c step s)) (mat (snd (run_step c step s))) = mats s (mat s))"
proof -
  let ?m = "mats s (mat s)"
  let ?p = "step_params step"
  have rs: "run_step c step s = op_crop c ?p s"
    using assms(1) by (simp add: run_step_def)
  have general:
    "x = max 0 \<lfloor>js_mul (js_div (nullish (num_param ?p ''cropX'') 0) 100) (real (cols ?m))\<rfloor> \<and>
     y = max 0 \<lfloor>js_mul (js_div (nullish (num_param ?p ''cropY'') 0) 100) (real (rows ?m))\<rfloor> \<and>
     w = max 1 \<lfloor>js_mul (js_div (nullish (num_param ?p ''cropWidth'') 100) 100) (real (cols ?m))\<rfloor> \<and>
     h = max 1 \<lfloor>js_mul (js_div (nullish (num_param ?p ''cropHeight'') 100) 100) (real (rows ?m))\<rfloor> \<and>
     0 \<le> x \<and> 0 \<le> y \<and> 1 \<le> w \<and> 1 \<le> h \<and>
     (case roi x y w h ?m of
        Inl msg \<Rightarrow> run_step c step s = (Throw msg, s)
      | Inr m' \<Rightarrow> fst (run_step c step s) = Ok () \<and>
                  mats (snd (run_step c step s)) (mat (snd (run_step c step s))) = m')"
    if cr: "crop_rect ?p ?m = (x, y, w, h)" for x y w h
  proof -
    have "case roi x y w h ?m of
            Inl msg \<Rightarrow> run_step c step s = (Throw msg, s)
          | Inr m' \<Rightarrow> fst (run_step c step s) = Ok () \<and>
                      mats (snd (run_step c step s)) (mat (snd (run_step c step s))) = m'"
      unfolding rs by (rule op_crop_result[OF assms(2) cr])
    moreover from cr have
      "x = max 0 \<lfloor>js_mul (js_div (nullish (num_param ?p ''cropX'') 0) 100) (real (cols ?m))\<rfloor>"
      "y = max 0 \<lfloor>js_mul (js_div (nullish (num_param ?p ''cropY'') 0) 100) (real (rows ?m))\<rfloor>"
      "w = max 1 \<lfloor>js_mul (js_div (nullish (num_param ?p ''cropWidth'') 100) 100) (real (cols ?m))\<rfloor>"
      "h = max 1 \<lfloor>js_mul (js_div (nullish (num_param ?p ''cropHeight'') 100) 100) (real (rows ?m))\<rfloor>"
      by (auto simp: crop_rect_def Let_def Math_floor_def)
    ultimately show ?thesis using crop_rect_bounds[OF cr] by blast
  qed
  have full: "fst (run_step c step s) = Ok () \<and>
          mats (snd (run_step c step s)) (mat (snd (run_step c step s))) = ?m"
    if "num_param ?p ''cropX'' = Some 0" "num_param ?p ''cropY'' = Some 0"
      "num_param ?p ''cropWidth'' = Some 100" "num_param ?p ''cropHeight'' = Some 100"
      "wf_Mat ?m" "0 < rows ?m" "rows ?m < 2 ^ 31" "0 < cols ?m" "cols ?m < 2 ^ 31"
  proof -
    have cr: "crop_rect ?p ?m = (0, 0, int (cols ?m), int (rows ?m))"
      using that by (intro crop_rect_full) auto
    from general[OF cr] roi_full[OF that(5)] show ?thesis by simp
  qed
  show ?thesis using general full by blast
qed

text \<open>Witness: the full crop of \<open>three_pixels\<close>, whose rectangle is (0, 0, 3, 1), and the
  crop of a buffer of 100 columns from 29 percent on, 72 percent wide, whose rectangle is
  (28, 0, 72, 1): the step succeeds and keeps the columns 28 to 99.\<close>

theorem crop_percent_rectangle_witness:
  "step_type full_crop_step = ''crop'' \<and>
   crop_rect (step_params full_crop_step) (mats running (mat running)) = (0, 0, 3, 1) \<and>
   wf_Mat (mats running (mat running)) \<and>
   fst (run_step ref_cv full_crop_step running) = Ok () \<and>
   mats (snd (run_step ref_cv full_crop_step running))
        (mat (snd (run_step ref_cv full_crop_step running))) = three_pixels \<and>
   step_type crop29_step = ''crop'' \<and>
   mats wide (mat wide) = hundred \<and>
   crop_rect (step_params crop29_step) hundred = (28, 0, 72, 1) \<and>
   fst (run_step ref_cv crop29_step wide) = Ok () \<and>
   mats (snd (run_step ref_cv crop29_step wide))
        (mat (snd (run_step ref_cv crop29_step wide))) = hundred_from_28"
proof -
  have a: "step_type full_crop_step = ''crop''" by (simp add: full_crop_step_def)
  have p: "num_param (step_params full_crop_step) ''cropX'' = Some 0"
    "num_param (step_params full_crop_step) ''cropY'' = Some 0"
    "num_param (step_params full_crop_step) ''cropWidth'' = Some 100"
    "num_param (step_params full_crop_step) ''cropHeight'' = Some 100"
    by (simp_all add: full_crop_step_def num_param_def)
  have w: "wf_Mat (mats running (mat running))" "0 < rows (mats running (mat running))"
    "0 < cols (mats running (mat running))" "rows (mats running (mat running)) < 2 ^ 31"
    "cols (mats running (mat running)) < 2 ^ 31"
    unfolding running_mat by (simp_all add: three_pixels_wf) (simp_all add: three_pixels_def)
  have cr: "crop_rect (step_params full_crop_step) (mats running (mat running)) = (0, 0, 3, 1)"
    using crop_rect_full[OF p w(2,3,4,5)] unfolding running_mat by (simp add: three_pixels_def)
  from crop_percent_rectangle[OF a ref_cv_roi, of running] p w
  have full: "fst (run_step ref_cv full_crop_step running) = Ok () \<and>
        mats (snd (run_step ref_cv full_crop_step running))
             (mat (snd (run_step ref_cv full_crop_step running))) = mats running (mat running)"
    by blast
  have b: "step_type crop29_step = ''crop''" by (simp add: crop29_step_def)
  have wm: "mats wide (mat wide) = hundred"
    by (simp add: wide_def running_def loaded_def)
  have cr29: "crop_rect (step_params crop29_step) hundred = (28, 0, 72, 1)"
    using floor_29_percent_of_100 floor_72_percent_of_100
    by (simp add: crop_rect_def crop29_step_def hundred_def num_param_def nullish_def Let_def
        Math_floor_def js_exact)
  have sub: "roi 28 0 72 1 hundred = Inr hundred_from_28"
    by (simp add: roi_def hundred_def hundred_from_28_def take_map drop_map)
  from crop_percent_rectangle[OF b ref_cv_roi, of wide] cr29
  have "case roi 28 0 72 1 (mats wide (mat wide)) of
          Inl msg \<Rightarrow> run_step ref_cv crop29_step wide = (Throw msg, wide)
        | Inr m' \<Rightarrow> fst (run_step ref_cv crop29_step wide) = Ok () \<and>
                    mats (snd (run_step ref_cv crop29_step wide))
                         (mat (snd (run_step ref_cv crop29_step wide))) = m'"
    unfolding wm by blast
  then have ok: "fst (run_step ref_cv crop29_step wide) = Ok () \<and>
                 mats (snd (run_step ref_cv crop29_step wide))
                      (mat (snd (run_step ref_cv crop29_step wide))) = hundred_from_28"
    unfolding wm sub by simp
  show ?thesis using a cr w(1) full b wm cr29 ok unfolding running_mat by simp
qed

subsection \<open>C8: gamma\<close>




subsection \<open>C9: the empty pipeline\<close>

text \<open>
  Claim C9: when a source buffer is loaded, the provider is there and the pipeline is
  empty, the run only sets the processed image to the original image: nothing is
  allocated or released, no buffer content changes, and the source buffer stays. When
  the original image is the upload the source buffer was decoded from, decoding the
  result gives the content of the source buffer.
\<close>

theorem empty_pipeline_identity:
  assumes "originalMat s = Some src" and "cv e = Some c" and "transformPipeline s = []"
  shows "applyTransformPipeline e s =
           s\<lparr>images := (images s)\<lparr>processed := original (images s), intermediateSteps := []\<rparr>\<rparr> \<and>
         processed (images (applyTransformPipeline e s)) = original (images s) \<and>
         run_log s (applyTransformPipeline e s) = [] \<and>
         next_handle (applyTransformPipeline e s) = next_handle s \<and>
         mats (applyTransformPipeline e s) = mats s \<and>
         originalMat (applyTransformPipeline e s) = Some src \<and>
         (\<forall>u. original (images s) = Some u \<and> dataUrlToMat e u = mats s src \<longrightarrow>
              map_option (dataUrlToMat e) (processed (images (applyTransformPipeline e s)))
                = Some (mats s src))"
  using assms by (simp add: applyTransformPipeline_def run_log_def)

text \<open>Witness: the component right after an upload.\<close>

theorem empty_pipeline_identity_witness:
  "originalMat uploaded = Some 0 \<and> cv ref_env = Some ref_cv \<and> transformPipeline uploaded = [] \<and>
   original (images uploaded) = Some ''AdzAd!Ad!~~~'' \<and>
   dataUrlToMat ref_env ''AdzAd!Ad!~~~'' = mats uploaded 0 \<and>
   processed (images (applyTransformPipeline ref_env uploaded)) = Some ''AdzAd!Ad!~~~'' \<and>
   run_log uploaded (applyTransformPipeline ref_env uploaded) = [] \<and>
   map_option (dataUrlToMat ref_env) (processed (images (applyTransformPipeline ref_env uploaded)))
     = Some (mats uploaded 0)"
proof -
  have a: "originalMat uploaded = Some 0" "cv ref_env = Some ref_cv" "transformPipeline uploaded = []"
    "original (images uploaded) = Some ''AdzAd!Ad!~~~''"
    "dataUrlToMat ref_env ''AdzAd!Ad!~~~'' = mats uploaded 0"
    by (simp_all add: uploaded_def handleImageUpload_def ref_env_def initial_def alloc_def Let_def)
  note r = empty_pipeline_identity[OF a(1) a(2) a(3)]
  have p: "processed (images (applyTransformPipeline ref_env uploaded)) = Some ''AdzAd!Ad!~~~''"
    using r a(4) by simp
  have l: "run_log uploaded (applyTransformPipeline ref_env uploaded) = []" using r by blast
  have m: "map_option (dataUrlToMat ref_env) (processed (images (applyTransformPipeline ref_env uploaded)))
     = Some (mats uploaded 0)" using r a(4) a(5) by blast
  show ?thesis using a p l m by blast
qed

subsection \<open>C10: the parameters of a new step\<close>

text \<open>
  Claim C10: whenever a step is appended (an operation is selected), by
  \<^verbatim>\<open>addTransformToPipeline\<close> or by the handler of the button, the pipeline grows by one
  step whose parameters are \<open>DEFAULT_PARAMS\<close>, whatever the sliders have stored in
  \<^verbatim>\<open>transformParams\<close>; and \<open>DEFAULT_PARAMS\<close> is the table of nine entries of the claim.
\<close>

theorem new_step_default_params:
  assumes "selectedOperation s \<noteq> []"
  shows "(\<exists>nm. transformPipeline (addTransformToPipeline i (s\<lparr>transformParams := tp\<rparr>)) =
            transformPipeline s @
              [\<lparr>step_id = i, step_type = selectedOperation s, step_params = DEFAULT_PARAMS,
                step_name = nm\<rparr>]) \<and>
         (currentOperation s \<noteq> None \<longrightarrow>
           (\<exists>nm. transformPipeline (addButton_onClick i (s\<lparr>transformParams := tp\<rparr>)) =
              transformPipeline s @
                [\<lparr>step_id = i, step_type = selectedOperation s, step_params = DEFAULT_PARAMS,
                  step_name = nm\<rparr>])) \<and>
         DEFAULT_PARAMS =
           [''blur'' \<mapsto> Num 5, ''threshold'' \<mapsto> Num 128, ''contrast'' \<mapsto> Num 120,
            ''brightness'' \<mapsto> Num 110, ''sharpen'' \<mapsto> Num 1, ''cropX'' \<mapsto> Num 10,
            ''cropY'' \<mapsto> Num 10, ''cropWidth'' \<mapsto> Num 80, ''cropHeight'' \<mapsto> Num 80]"
proof -
  have co: "currentOperation (s\<lparr>transformParams := tp\<rparr>) = currentOperation s"
    by (simp add: currentOperation_def currentCategory_def cong: option.case_cong)
  have p1: "\<exists>nm. transformPipeline (addTransformToPipeline i (s\<lparr>transformParams := tp\<rparr>)) =
            transformPipeline s @
              [\<lparr>step_id = i, step_type = selectedOperation s, step_params = DEFAULT_PARAMS,
                step_name = nm\<rparr>]"
    using assms by (simp add: addTransformToPipeline_def Let_def)
  have p2: "\<exists>nm. transformPipeline (addButton_onClick i (s\<lparr>transformParams := tp\<rparr>)) =
              transformPipeline s @
                [\<lparr>step_id = i, step_type = selectedOperation s, step_params = DEFAULT_PARAMS,
                  step_name = nm\<rparr>]"
    if "currentOperation s \<noteq> None"
  proof -
    from that obtain op where "currentOperation s = Some op" by blast
    then show ?thesis using assms by (simp add: addButton_onClick_def co Let_def)
  qed
  show ?thesis using p1 p2 by (simp add: DEFAULT_PARAMS_def)
qed

text \<open>Witness: Gaussian Blur is selected and its slider stands at 9; the new step still has
  \<open>blur = 5\<close>.\<close>

theorem new_step_default_params_witness:
  "selectedOperation tuned \<noteq> [] \<and> currentOperation tuned \<noteq> None \<and>
   num_param (transformParams tuned) ''blur'' = Some 9 \<and>
   map step_params (transformPipeline (addTransformToPipeline ''k3x9'' tuned)) = [DEFAULT_PARAMS] \<and>
   map step_params (transformPipeline (addButton_onClick ''k3x9'' tuned)) = [DEFAULT_PARAMS] \<and>
   num_param DEFAULT_PARAMS ''blur'' = Some 5"
proof -
  have a: "selectedOperation tuned \<noteq> []"
    by (simp add: tuned_def slider_onValueChange_def initial_def)
  have b: "currentOperation tuned \<noteq> None"
    by (simp add: tuned_def slider_onValueChange_def initial_def currentOperation_def
        currentCategory_def TRANSFORM_CATEGORIES_def)
  have c: "num_param (transformParams tuned) ''blur'' = Some 9"
    by (simp add: tuned_def slider_onValueChange_def num_param_def)
  have d: "tuned\<lparr>transformParams := transformParams tuned\<rparr> = tuned" by simp
  have e: "transformPipeline tuned = []"
    by (simp add: tuned_def slider_onValueChange_def initial_def)
  have f: "num_param DEFAULT_PARAMS ''blur'' = Some 5"
    by (simp add: DEFAULT_PARAMS_def num_param_def)
  from new_step_default_params[OF a, of "''k3x9''" "transformParams tuned"] b
  show ?thesis using a c f unfolding d e by auto
qed

end
